theory Spec2Isabelle
  imports Main
begin

section \<open>Go strings\<close>

text \<open>
  A Go string is a sequence of bytes, so a title is a \<open>string\<close> (one \<open>char\<close> per byte) and
  \<open>len(title)\<close> is \<open>length title\<close>. \<open>range\<close> over a string, \<open>strings.Fields\<close> and
  \<open>strings.ToLower\<close> read the bytes as UTF-8; an ill-formed byte is the rune \<open>U+FFFD\<close> of
  width one. Runes are \<open>int\<close> (Go's \<open>int32\<close>; every rune is below \<open>0x110000\<close>).
\<close>

definition cont :: "int \<Rightarrow> bool" where
  "cont b = (0x80 \<le> b \<and> b \<le> 0xBF)"

definition decode_multi :: "int \<Rightarrow> int list \<Rightarrow> (int \<times> nat) option" where
  \<comment> \<open>\<open>utf8.DecodeRuneInString\<close> on a lead byte \<open>b0 \<ge> 0x80\<close>: the rune and the number of
      continuation bytes, or \<open>None\<close> for an ill-formed sequence.\<close>
  "decode_multi b0 bs =
     (if 0xC2 \<le> b0 \<and> b0 \<le> 0xDF then
        (case bs of
           b1 # _ \<Rightarrow> if cont b1 then Some ((b0 - 0xC0) * 64 + (b1 - 0x80), 1) else None
         | _ \<Rightarrow> None)
      else if 0xE0 \<le> b0 \<and> b0 \<le> 0xEF then
        (case bs of
           b1 # b2 # _ \<Rightarrow>
             if (if b0 = 0xE0 then 0xA0 else 0x80) \<le> b1
                \<and> b1 \<le> (if b0 = 0xED then 0x9F else 0xBF) \<and> cont b2
             then Some ((b0 - 0xE0) * 4096 + (b1 - 0x80) * 64 + (b2 - 0x80), 2) else None
         | _ \<Rightarrow> None)
      else if 0xF0 \<le> b0 \<and> b0 \<le> 0xF4 then
        (case bs of
           b1 # b2 # b3 # _ \<Rightarrow>
             if (if b0 = 0xF0 then 0x90 else 0x80) \<le> b1
                \<and> b1 \<le> (if b0 = 0xF4 then 0x8F else 0xBF) \<and> cont b2 \<and> cont b3
             then Some ((b0 - 0xF0) * 262144 + (b1 - 0x80) * 4096 + (b2 - 0x80) * 64
                        + (b3 - 0x80), 3)
             else None
         | _ \<Rightarrow> None)
      else None)"

fun utf8_chunks :: "string \<Rightarrow> (int \<times> string) list" where
  \<comment> \<open>the runes of a string in order, each with the bytes it was read from\<close>
  "utf8_chunks [] = []"
| "utf8_chunks (c # cs) =
     (if of_char c < (0x80::int) then (of_char c, [c]) # utf8_chunks cs
      else case decode_multi (of_char c) (map of_char cs) of
             Some (r, n) \<Rightarrow> (r, c # take n cs) # utf8_chunks (drop n cs)
           | None \<Rightarrow> (0xFFFD, [c]) # utf8_chunks cs)"

definition runes :: "string \<Rightarrow> int list" where
  \<comment> \<open>the values \<open>r\<close> of \<open>for _, r := range s\<close>\<close>
  "runes s = map fst (utf8_chunks s)"

definition utf8_encode :: "int \<Rightarrow> string" where
  "utf8_encode r =
     (if r < 0x80 then [char_of r]
      else if r < 0x800 then [char_of (0xC0 + r div 64), char_of (0x80 + r mod 64)]
      else if r < 0x10000 then
        [char_of (0xE0 + r div 4096), char_of (0x80 + (r div 64) mod 64),
         char_of (0x80 + r mod 64)]
      else [char_of (0xF0 + r div 262144), char_of (0x80 + (r div 4096) mod 64),
            char_of (0x80 + (r div 64) mod 64), char_of (0x80 + r mod 64)])"

text \<open>
  \<open>unicode.ToLower\<close> reads the table \<open>unicode.CaseRanges\<close>, which the package generates from the
  simple lower-case mappings of the Unicode Character Database (Unicode 15.0.0 in the Go
  1.21 that the \<open>Dockerfile\<close> names). The table is written here with one row per run of
  runes: \<open>(lo, hi, stride, delta)\<close> maps every rune \<open>lo + k * stride\<close> up to \<open>hi\<close> to itself plus
  \<open>delta\<close>, and keeps the runes between them (the rows of stride 2 are the ranges that Go
  marks \<open>UpperLower\<close>: capitals and small letters in turn). A rune in no row is kept.
\<close>

definition caseRanges :: "(int \<times> int \<times> int \<times> int) list" where
  "caseRanges =
    [(0xC0, 0xD6, 1, 32), (0xD8, 0xDE, 1, 32), (0x100, 0x12E, 2, 1), (0x130, 0x130, 1, - 199),
     (0x132, 0x136, 2, 1), (0x139, 0x147, 2, 1), (0x14A, 0x176, 2, 1), (0x178, 0x178, 1, - 121),
     (0x179, 0x17D, 2, 1), (0x181, 0x181, 1, 210), (0x182, 0x184, 2, 1), (0x186, 0x186, 1, 206),
     (0x187, 0x187, 1, 1), (0x189, 0x18A, 1, 205), (0x18B, 0x18B, 1, 1), (0x18E, 0x18E, 1, 79),
     (0x18F, 0x18F, 1, 202), (0x190, 0x190, 1, 203), (0x191, 0x191, 1, 1), (0x193, 0x193, 1, 205),
     (0x194, 0x194, 1, 207), (0x196, 0x196, 1, 211), (0x197, 0x197, 1, 209), (0x198, 0x198, 1, 1),
     (0x19C, 0x19C, 1, 211), (0x19D, 0x19D, 1, 213), (0x19F, 0x19F, 1, 214), (0x1A0, 0x1A4, 2, 1),
     (0x1A6, 0x1A6, 1, 218), (0x1A7, 0x1A7, 1, 1), (0x1A9, 0x1A9, 1, 218), (0x1AC, 0x1AC, 1, 1),
     (0x1AE, 0x1AE, 1, 218), (0x1AF, 0x1AF, 1, 1), (0x1B1, 0x1B2, 1, 217), (0x1B3, 0x1B5, 2, 1),
     (0x1B7, 0x1B7, 1, 219), (0x1B8, 0x1B8, 1, 1), (0x1BC, 0x1BC, 1, 1), (0x1C4, 0x1C4, 1, 2),
     (0x1C5, 0x1C5, 1, 1), (0x1C7, 0x1C7, 1, 2), (0x1C8, 0x1C8, 1, 1), (0x1CA, 0x1CA, 1, 2),
     (0x1CB, 0x1DB, 2, 1), (0x1DE, 0x1EE, 2, 1), (0x1F1, 0x1F1, 1, 2), (0x1F2, 0x1F4, 2, 1),
     (0x1F6, 0x1F6, 1, - 97), (0x1F7, 0x1F7, 1, - 56), (0x1F8, 0x21E, 2, 1),
     (0x220, 0x220, 1, - 130), (0x222, 0x232, 2, 1), (0x23A, 0x23A, 1, 10795),
     (0x23B, 0x23B, 1, 1), (0x23D, 0x23D, 1, - 163), (0x23E, 0x23E, 1, 10792),
     (0x241, 0x241, 1, 1), (0x243, 0x243, 1, - 195), (0x244, 0x244, 1, 69), (0x245, 0x245, 1, 71),
     (0x246, 0x24E, 2, 1), (0x370, 0x372, 2, 1), (0x376, 0x376, 1, 1), (0x37F, 0x37F, 1, 116),
     (0x386, 0x386, 1, 38), (0x388, 0x38A, 1, 37), (0x38C, 0x38C, 1, 64), (0x38E, 0x38F, 1, 63),
     (0x391, 0x3A1, 1, 32), (0x3A3, 0x3AB, 1, 32), (0x3CF, 0x3CF, 1, 8), (0x3D8, 0x3EE, 2, 1),
     (0x3F4, 0x3F4, 1, - 60), (0x3F7, 0x3F7, 1, 1), (0x3F9, 0x3F9, 1, - 7), (0x3FA, 0x3FA, 1, 1),
     (0x3FD, 0x3FF, 1, - 130), (0x400, 0x40F, 1, 80), (0x410, 0x42F, 1, 32), (0x460, 0x480, 2, 1),
     (0x48A, 0x4BE, 2, 1), (0x4C0, 0x4C0, 1, 15), (0x4C1, 0x4CD, 2, 1), (0x4D0, 0x52E, 2, 1),
     (0x531, 0x556, 1, 48), (0x10A0, 0x10C5, 1, 7264), (0x10C7, 0x10C7, 1, 7264),
     (0x10CD, 0x10CD, 1, 7264), (0x13A0, 0x13EF, 1, 38864), (0x13F0, 0x13F5, 1, 8),
     (0x1C90, 0x1CBA, 1, - 3008), (0x1CBD, 0x1CBF, 1, - 3008), (0x1E00, 0x1E94, 2, 1),
     (0x1E9E, 0x1E9E, 1, - 7615), (0x1EA0, 0x1EFE, 2, 1), (0x1F08, 0x1F0F, 1, - 8),
     (0x1F18, 0x1F1D, 1, - 8), (0x1F28, 0x1F2F, 1, - 8), (0x1F38, 0x1F3F, 1, - 8),
     (0x1F48, 0x1F4D, 1, - 8), (0x1F59, 0x1F5F, 2, - 8), (0x1F68, 0x1F6F, 1, - 8),
     (0x1F88, 0x1F8F, 1, - 8), (0x1F98, 0x1F9F, 1, - 8), (0x1FA8, 0x1FAF, 1, - 8),
     (0x1FB8, 0x1FB9, 1, - 8), (0x1FBA, 0x1FBB, 1, - 74), (0x1FBC, 0x1FBC, 1, - 9),
     (0x1FC8, 0x1FCB, 1, - 86), (0x1FCC, 0x1FCC, 1, - 9), (0x1FD8, 0x1FD9, 1, - 8),
     (0x1FDA, 0x1FDB, 1, - 100), (0x1FE8, 0x1FE9, 1, - 8), (0x1FEA, 0x1FEB, 1, - 112),
     (0x1FEC, 0x1FEC, 1, - 7), (0x1FF8, 0x1FF9, 1, - 128), (0x1FFA, 0x1FFB, 1, - 126),
     (0x1FFC, 0x1FFC, 1, - 9), (0x2126, 0x2126, 1, - 7517), (0x212A, 0x212A, 1, - 8383),
     (0x212B, 0x212B, 1, - 8262), (0x2132, 0x2132, 1, 28), (0x2160, 0x216F, 1, 16),
     (0x2183, 0x2183, 1, 1), (0x24B6, 0x24CF, 1, 26), (0x2C00, 0x2C2F, 1, 48),
     (0x2C60, 0x2C60, 1, 1), (0x2C62, 0x2C62, 1, - 10743), (0x2C63, 0x2C63, 1, - 3814),
     (0x2C64, 0x2C64, 1, - 10727), (0x2C67, 0x2C6B, 2, 1), (0x2C6D, 0x2C6D, 1, - 10780),
     (0x2C6E, 0x2C6E, 1, - 10749), (0x2C6F, 0x2C6F, 1, - 10783), (0x2C70, 0x2C70, 1, - 10782),
     (0x2C72, 0x2C72, 1, 1), (0x2C75, 0x2C75, 1, 1), (0x2C7E, 0x2C7F, 1, - 10815),
     (0x2C80, 0x2CE2, 2, 1), (0x2CEB, 0x2CED, 2, 1), (0x2CF2, 0x2CF2, 1, 1),
     (0xA640, 0xA66C, 2, 1), (0xA680, 0xA69A, 2, 1), (0xA722, 0xA72E, 2, 1),
     (0xA732, 0xA76E, 2, 1), (0xA779, 0xA77B, 2, 1), (0xA77D, 0xA77D, 1, - 35332),
     (0xA77E, 0xA786, 2, 1), (0xA78B, 0xA78B, 1, 1), (0xA78D, 0xA78D, 1, - 42280),
     (0xA790, 0xA792, 2, 1), (0xA796, 0xA7A8, 2, 1), (0xA7AA, 0xA7AA, 1, - 42308),
     (0xA7AB, 0xA7AB, 1, - 42319), (0xA7AC, 0xA7AC, 1, - 42315), (0xA7AD, 0xA7AD, 1, - 42305),
     (0xA7AE, 0xA7AE, 1, - 42308), (0xA7B0, 0xA7B0, 1, - 42258), (0xA7B1, 0xA7B1, 1, - 42282),
     (0xA7B2, 0xA7B2, 1, - 42261), (0xA7B3, 0xA7B3, 1, 928), (0xA7B4, 0xA7C2, 2, 1),
     (0xA7C4, 0xA7C4, 1, - 48), (0xA7C5, 0xA7C5, 1, - 42307), (0xA7C6, 0xA7C6, 1, - 35384),
     (0xA7C7, 0xA7C9, 2, 1), (0xA7D0, 0xA7D0, 1, 1), (0xA7D6, 0xA7D8, 2, 1),
     (0xA7F5, 0xA7F5, 1, 1), (0xFF21, 0xFF3A, 1, 32), (0x10400, 0x10427, 1, 40),
     (0x104B0, 0x104D3, 1, 40), (0x10570, 0x1057A, 1, 39), (0x1057C, 0x1058A, 1, 39),
     (0x1058C, 0x10592, 1, 39), (0x10594, 0x10595, 1, 39), (0x10C80, 0x10CB2, 1, 64),
     (0x118A0, 0x118BF, 1, 32), (0x16E40, 0x16E5F, 1, 32), (0x1E900, 0x1E921, 1, 34)]"

fun to_lower :: "(int \<times> int \<times> int \<times> int) list \<Rightarrow> int \<Rightarrow> int" where
  "to_lower [] r = r"
| "to_lower ((lo, hi, stride, delta) # rows) r =
     (if lo \<le> r \<and> r \<le> hi then (if (r - lo) mod stride = 0 then r + delta else r)
      else to_lower rows r)"

definition unicode_ToLower :: "int \<Rightarrow> int" where
  \<comment> \<open>\<open>unicode.ToLower\<close>: the letters of ASCII at once, the table for every other rune\<close>
  "unicode_ToLower r =
     (if r \<le> 0x7F then (if 0x41 \<le> r \<and> r \<le> 0x5A then r + 32 else r)
      else to_lower caseRanges r)"

definition ToLower :: "string \<Rightarrow> string" where
  \<comment> \<open>\<open>strings.ToLower\<close>: every rune mapped and written back as UTF-8\<close>
  "ToLower s = concat (map (\<lambda>(r, bs). utf8_encode (unicode_ToLower r)) (utf8_chunks s))"

definition IsSpace :: "int \<Rightarrow> bool" where
  \<comment> \<open>\<open>unicode.IsSpace\<close>\<close>
  "IsSpace r =
     (r \<in> {0x09, 0x0A, 0x0B, 0x0C, 0x0D, 0x20, 0x85, 0xA0, 0x1680,
            0x2028, 0x2029, 0x202F, 0x205F, 0x3000}
      \<or> (0x2000 \<le> r \<and> r \<le> 0x200A))"

fun fields_from :: "(int \<times> string) list \<Rightarrow> string \<Rightarrow> string list" where
  "fields_from [] cur = (if cur = [] then [] else [cur])"
| "fields_from ((r, bs) # rest) cur =
     (if IsSpace r then (if cur = [] then fields_from rest [] else cur # fields_from rest [])
      else fields_from rest (cur @ bs))"

definition Fields :: "string \<Rightarrow> string list" where
  \<comment> \<open>\<open>strings.Fields\<close>: the maximal runs of non-space runes\<close>
  "Fields s = fields_from (utf8_chunks s) []"

fun Contains :: "string \<Rightarrow> string \<Rightarrow> bool" where
  \<comment> \<open>\<open>strings.Contains(s, substr)\<close>\<close>
  "Contains [] substr = (substr = [])"
| "Contains (c # cs) substr = (take (length substr) (c # cs) = substr \<or> Contains cs substr)"

section \<open>Data model\<close>

text \<open>
  \<open>WikiNode\<close> of \<open>main.go\<close>. The field \<open>Index\<close> is the position inside the heap slice, written
  by \<open>Swap\<close>, \<open>Push\<close> and \<open>Pop\<close> only and read nowhere; it is left out. \<open>Priority\<close> is a Go
  \<open>int\<close>; the scores are a few hundred times the length of a title at most, far from the
  64-bit range, so it is an \<open>int\<close> here.
\<close>

record WikiNode =
  Title :: string
  Lang :: string
  Priority :: int

definition Key :: "WikiNode \<Rightarrow> string" where
  "Key n = ToLower (Lang n @ '':'' @ Title n)"

definition wikiAPIs :: "string list" where
  \<comment> \<open>the keys of the table \<open>wikiAPIs\<close>\<close>
  "wikiAPIs = [''en'', ''ru'', ''de'', ''fr'', ''es'', ''it'', ''pt'', ''uk'']"

text \<open>
  A visited map (\<open>sync.Map\<close>) takes a key to the stored \<open>*WikiNode\<close>: \<open>None\<close> is an absent key,
  \<open>Some None\<close> the stored nil pointer of a root, \<open>Some (Some p)\<close> a parent.
\<close>

type_synonym visited = "string \<Rightarrow> WikiNode option option"

text \<open>
  The decoded body of a response (\<open>WikiResponse\<close>): the pages in the order in which the
  \<open>range\<close> over the map \<open>Pages\<close> yields them.
\<close>

record Page =
  PageTitle :: string
  Links :: "string list"
  LinksHere :: "string list"
  LangLinks :: "(string \<times> string) list"

text \<open>
  What \<open>client.Do\<close> and the decoder give for one request: an error of the transport (which
  includes a cancelled or expired context), or a response with its status code and the body,
  \<open>None\<close> when the body does not decode. The transport is a function of the request, which
  \<open>fetch\<close> builds from its three arguments.
\<close>

datatype http_result = TransportError | Response int "Page list option"

type_synonym transport = "string list \<Rightarrow> string \<Rightarrow> string \<Rightarrow> http_result"

text \<open>
  \<open>Searcher\<close>. \<open>startWords\<close> and \<open>targetWords\<close> are maps \<open>map[string]bool\<close> that only ever
  hold \<open>true\<close>: each is modelled by a list of its keys, read through \<open>set\<close> for a lookup and
  through \<open>remdups\<close> for the \<open>range\<close> loop, which visits every key once. \<open>reqCount\<close> is an
  \<open>atomic.Int64\<close> that grows by one per request, an \<open>int\<close> here. \<open>cancelled\<close> records that
  \<open>s.cancel()\<close> was called; the client, the context and the mutex of the result have no
  field of their own: what the client gives is the transport, the deadline of the context
  is an argument of \<open>Search\<close>. The last two fields are not fields of the struct; they are
  the history of two effects: \<open>wire\<close> is the trace of the calls of \<open>s.client.Do\<close> made by
  \<open>fetch\<close>, each with what it gave, and \<open>claims\<close> counts the calls of
  \<open>s.found.CompareAndSwap(false, true)\<close> that returned true.
\<close>

record Searcher =
  visitedF :: visited
  visitedB :: visited
  found :: bool
  result :: "WikiNode list"
  reqCount :: int
  cancelled :: bool
  targetLang :: string
  startLang :: string
  startWords :: "string list"
  targetWords :: "string list"
  wire :: "((string list \<times> string \<times> string) \<times> http_result) list"
  claims :: nat

text \<open>The fields of \<open>APISearcher\<close> that its scorer reads.\<close>

record APISearcher =
  api_targetLang :: string
  api_startLang :: string
  api_startWords :: "string list"
  api_targetWords :: "string list"

definition wordSet :: "string \<Rightarrow> string list" where
  \<comment> \<open>the loop that fills \<open>startWords\<close> and \<open>targetWords\<close>\<close>
  "wordSet title = filter (\<lambda>word. length word > 2) (Fields (ToLower title))"

definition NewSearcher :: "string \<Rightarrow> string \<Rightarrow> string \<Rightarrow> string \<Rightarrow> Searcher" where
  "NewSearcher startLang0 startTitle targetLang0 targetTitle =
     \<lparr>visitedF = Map.empty, visitedB = Map.empty, found = False, result = [], reqCount = 0,
      cancelled = False, targetLang = targetLang0, startLang = startLang0,
      startWords = wordSet startTitle, targetWords = wordSet targetTitle, wire = [],
      claims = 0\<rparr>"

section \<open>The heuristic scorer\<close>

definition heuristic :: "Searcher \<Rightarrow> string \<Rightarrow> string \<Rightarrow> string \<Rightarrow> int" where
  "heuristic s title lang dir =
     (let score = 100;
          titleLower = ToLower title;
          words = (if dir = ''F'' then targetWords s else startWords s);
          targetLang' = (if dir = ''F'' then targetLang s else startLang s);
          score = (if lang = targetLang' then score - 25 else score);
          score = fold (\<lambda>word score.
                     if length word > 2 \<and> word \<in> set words then score - 40 else score)
                   (Fields titleLower) score;
          score = fold (\<lambda>word score.
                     if Contains titleLower word then score - 20 else score)
                   (remdups words) score;
          score = (if lang = ''en'' \<or> lang = ''ru'' then score - 10 else score);
          score = (if length title < 20 then score - 5 else score);
          score = (if length title > 60 then score + 15 else score)
      in score)"

definition api_heuristic :: "APISearcher \<Rightarrow> string \<Rightarrow> string \<Rightarrow> string \<Rightarrow> int" where
  \<comment> \<open>\<open>APISearcher.heuristic\<close>\<close>
  "api_heuristic s title lang dir =
     (let score = 100;
          titleLower = ToLower title;
          words = (if dir = ''F'' then api_targetWords s else api_startWords s);
          targetLang' = (if dir = ''F'' then api_targetLang s else api_startLang s);
          score = (if lang = targetLang' then score - 25 else score);
          score = fold (\<lambda>word score.
                     if length word > 2 \<and> word \<in> set words then score - 40 else score)
                   (Fields titleLower) score;
          score = fold (\<lambda>word score.
                     if Contains titleLower word then score - 20 else score)
                   (remdups words) score;
          score = (if lang = ''en'' \<or> lang = ''ru'' then score - 10 else score);
          score = (if length title < 20 then score - 5 else score);
          score = (if length title > 60 then score + 15 else score)
      in score)"

section \<open>The language prober\<close>

definition russian_letter :: "int \<Rightarrow> bool" where
  \<comment> \<open>the test of \<open>guessLang\<close>; the rune literals of the source are \<open>U+0410\<close> and \<open>U+044F\<close> (the
      first capital and the last small letter of the Russian alphabet), \<open>U+0451\<close> and \<open>U+0401\<close>
      (the letter io)\<close>
  "russian_letter r = ((0x410 \<le> r \<and> r \<le> 0x44F) \<or> r = 0x451 \<or> r = 0x401)"

fun guess_runes :: "int list \<Rightarrow> string" where
  "guess_runes [] = ''en''"
| "guess_runes (r # rs) = (if russian_letter r then ''ru'' else guess_runes rs)"

definition guessLang :: "string \<Rightarrow> string" where
  "guessLang title = guess_runes (runes title)"

definition candidates :: "string \<Rightarrow> string list" where
  \<comment> \<open>the slice \<open>langs\<close> of \<open>detectLang\<close>\<close>
  "candidates title =
     (let guessed = guessLang title
      in [guessed] @ (if guessed = ''ru'' then [''en''] else [''ru'']))"

text \<open>
  What the collecting loop of \<open>detectLang\<close> has from the goroutine of one language when it
  ends: nothing (\<open>ctx.Done()\<close> was taken instead), the result of a failed request, or the
  decoded pages, in the order of the \<open>range\<close> over the map, each with its key \<open>id\<close>, its
  \<open>Title\<close> and its flag \<open>Missing\<close>.
\<close>

datatype probe_result = Lost | Failed | Decoded "(string \<times> string \<times> bool) list"

type_synonym prober = "string \<Rightarrow> string \<Rightarrow> probe_result"

fun first_page :: "(string \<times> string \<times> bool) list \<Rightarrow> string option" where
  \<comment> \<open>the loop over \<open>data.Query.Pages\<close>\<close>
  "first_page [] = None"
| "first_page ((pid, title, missing) # pages) =
     (if pid \<noteq> ''-1'' \<and> \<not> missing then Some title else first_page pages)"

definition probe_title :: "probe_result \<Rightarrow> string option" where
  \<comment> \<open>the \<open>realTitle\<close> of a received result with \<open>found\<close> set\<close>
  "probe_title r = (case r of Decoded pages \<Rightarrow> first_page pages | _ \<Rightarrow> None)"

fun first_found :: "string list \<Rightarrow> (string \<Rightarrow> string option) \<Rightarrow> string \<times> string" where
  \<comment> \<open>the last loop of \<open>detectLang\<close>, over \<open>langs\<close>\<close>
  "first_found [] foundLangs = ('''', '''')"
| "first_found (lang # langs) foundLangs =
     (case foundLangs lang of
        Some realTitle \<Rightarrow> (lang, realTitle)
      | None \<Rightarrow> first_found langs foundLangs)"

definition detectLang :: "prober \<Rightarrow> string \<Rightarrow> string \<times> string" where
  "detectLang prb title =
     (let langs = candidates title;
          foundLangs = fold (\<lambda>l m. case probe_title (prb l title) of
                                     Some realTitle \<Rightarrow> m(l \<mapsto> realTitle)
                                   | None \<Rightarrow> m) langs Map.empty
      in first_found langs foundLangs)"

definition resolve :: "prober \<Rightarrow> string \<Rightarrow> string \<Rightarrow> string \<times> string" where
  \<comment> \<open>the two goroutines at the head of \<open>Search\<close>: \<open>(lang, title)\<close> stays unless
      \<open>detectLang\<close> gives a language\<close>
  "resolve prb lang title =
     (let (l, t) = detectLang prb title in if l \<noteq> '''' then (l, t) else (lang, title))"

section \<open>The path reconstructor\<close>

text \<open>
  The two loops of \<open>buildPath\<close> have no bound: each is a partial function whose value \<open>None\<close>
  is a loop that never ends. A key that is absent and a stored nil pointer both leave the
  loop (\<open>!ok\<close>, \<open>p == nil\<close>).
\<close>

partial_function (option) walkF :: "visited \<Rightarrow> WikiNode \<Rightarrow> WikiNode list \<Rightarrow> WikiNode list option"
where
  "walkF vis cur fwd =
     (case vis (Key cur) of
        Some (Some p) \<Rightarrow> walkF vis p (cur # fwd)
      | _ \<Rightarrow> Some (cur # fwd))"

partial_function (option) walkB :: "visited \<Rightarrow> WikiNode \<Rightarrow> WikiNode list \<Rightarrow> WikiNode list option"
where
  "walkB vis cur bwd =
     (case vis (Key cur) of
        Some (Some p) \<Rightarrow> walkB vis p (bwd @ [cur])
      | _ \<Rightarrow> Some (bwd @ [cur]))"

declare walkF.simps [code]

declare walkB.simps [code]

datatype error = NilDereference

text \<open>
  Before the second loop, \<open>val != nil\<close> compares an interface value with nil: it holds for
  every stored value, the nil \<open>*WikiNode\<close> of a root included, and \<open>*val.(*WikiNode)\<close> then
  dereferences that nil pointer, which panics.
\<close>

definition buildPath :: "Searcher \<Rightarrow> WikiNode \<Rightarrow> (error + WikiNode list) option" where
  "buildPath s meet =
     (case walkF (visitedF s) meet [] of
        None \<Rightarrow> None
      | Some fwd \<Rightarrow>
          (case visitedB s (Key meet) of
             None \<Rightarrow> Some (Inr fwd)
           | Some None \<Rightarrow> Some (Inl NilDereference)
           | Some (Some p) \<Rightarrow>
               (case walkB (visitedB s) p [] of
                  None \<Rightarrow> None
                | Some bwd \<Rightarrow> Some (Inr (fwd @ bwd)))))"

section \<open>One call of fetch\<close>

text \<open>
  Calls of \<open>fetch\<close> run concurrently and meet in the two visited maps, in \<open>found\<close> and in
  the request counter. A call is therefore a machine that takes one step per access to
  that shared state, so that the steps of several calls can be interleaved. \<open>Load\<close>,
  \<open>Store\<close> and \<open>LoadOrStore\<close> of \<open>sync.Map\<close>, and \<open>Load\<close>, \<open>CompareAndSwap\<close> and \<open>Add\<close> of
  the atomics are atomic. The one step that is coarser than the source is \<open>Build\<close>: the
  loads of \<open>buildPath\<close> are taken together.

  The program points: \<open>Entry\<close> is the first line; \<open>Request\<close> is \<open>s.client.Do(req)\<close> with the
  increment and the decoding that follow it; \<open>NextPage\<close> is the head of the loop over the
  pages; \<open>Check\<close> is \<open>other.Load(key)\<close> for the next child; \<open>Claim\<close> is
  \<open>s.found.CompareAndSwap(false, true)\<close>; \<open>StoreParent\<close> is \<open>own.Store(key, &parent)\<close>;
  \<open>Build\<close> is \<open>buildPath\<close>, the write of \<open>s.result\<close> and \<open>s.cancel()\<close>; \<open>Insert\<close> is
  \<open>own.LoadOrStore(key, &parent)\<close>. A call ends in \<open>Done\<close> (it has returned \<open>t_ret\<close>), in
  \<open>Panicked\<close> (the nil dereference of \<open>buildPath\<close>) or in \<open>Blocked\<close> (a loop of \<open>buildPath\<close>
  that never ends).
\<close>

datatype pc =
  Entry | Request | NextPage | Check | Claim WikiNode | StoreParent WikiNode | Build WikiNode
  | Insert WikiNode | Done | Panicked | Blocked

text \<open>
  The arguments and the local variables of a call. \<open>t_children\<close> holds the children of the
  current page that the two inner loops have still to visit, the links first, then the
  language links that pass the filter.
\<close>

record task =
  t_titles :: "string list"
  t_lang :: string
  t_dir :: string
  t_pc :: pc
  t_pages :: "Page list"
  t_parent :: WikiNode
  t_children :: "WikiNode list"
  t_newNodes :: "WikiNode list"
  t_ret :: "WikiNode list"

definition new_task :: "string list \<Rightarrow> string \<Rightarrow> string \<Rightarrow> task" where
  "new_task titles lang dir =
     \<lparr>t_titles = titles, t_lang = lang, t_dir = dir, t_pc = Entry, t_pages = [],
      t_parent = \<lparr>Title = [], Lang = [], Priority = 0\<rparr>, t_children = [], t_newNodes = [],
      t_ret = []\<rparr>"

definition terminal :: "task \<Rightarrow> bool" where
  "terminal t = (t_pc t = Done \<or> t_pc t = Panicked \<or> t_pc t = Blocked)"

definition own :: "string \<Rightarrow> Searcher \<Rightarrow> visited" where
  "own dir s = (if dir = ''F'' then visitedF s else visitedB s)"

definition other :: "string \<Rightarrow> Searcher \<Rightarrow> visited" where
  "other dir s = (if dir = ''F'' then visitedB s else visitedF s)"

definition own_store :: "string \<Rightarrow> string \<Rightarrow> WikiNode \<Rightarrow> Searcher \<Rightarrow> Searcher" where
  "own_store dir key p s =
     (if dir = ''F'' then s\<lparr>visitedF := (visitedF s)(key \<mapsto> Some p)\<rparr>
      else s\<lparr>visitedB := (visitedB s)(key \<mapsto> Some p)\<rparr>)"

definition children :: "Searcher \<Rightarrow> string \<Rightarrow> string \<Rightarrow> Page \<Rightarrow> WikiNode list" where
  \<comment> \<open>the nodes \<open>child\<close> of the two inner loops, in the order of the loops\<close>
  "children s lang dir page =
     map (\<lambda>title. \<lparr>Title = title, Lang = lang, Priority = heuristic s title lang dir\<rparr>)
       (if dir = ''F'' then Links page else LinksHere page)
     @ map (\<lambda>(l, title). \<lparr>Title = title, Lang = l, Priority = heuristic s title l dir\<rparr>)
         (filter (\<lambda>(l, title). l \<in> set wikiAPIs \<and> title \<noteq> '''') (LangLinks page))"

definition fetch_step :: "transport \<Rightarrow> Searcher \<times> task \<Rightarrow> Searcher \<times> task" where
  "fetch_step tr = (\<lambda>(s, t).
     case t_pc t of
       Entry \<Rightarrow>
         if found s \<or> t_titles t = [] then (s, t\<lparr>t_pc := Done, t_ret := []\<rparr>)
         else (s, t\<lparr>t_pc := Request\<rparr>)
     | Request \<Rightarrow>
         (case tr (t_titles t) (t_lang t) (t_dir t) of
            TransportError \<Rightarrow>
              (s\<lparr>wire := wire s @ [((t_titles t, t_lang t, t_dir t), TransportError)]\<rparr>,
               t\<lparr>t_pc := Done, t_ret := []\<rparr>)
          | Response status body \<Rightarrow>
              (let s' = s\<lparr>reqCount := reqCount s + 1,
                         wire := wire s @ [((t_titles t, t_lang t, t_dir t), Response status body)]\<rparr>
               in case body of
                    None \<Rightarrow> (s', t\<lparr>t_pc := Done, t_ret := []\<rparr>)
                  | Some pages \<Rightarrow> (s', t\<lparr>t_pc := NextPage, t_pages := pages, t_newNodes := []\<rparr>)))
     | NextPage \<Rightarrow>
         (case t_pages t of
            [] \<Rightarrow> (s, t\<lparr>t_pc := Done, t_ret := t_newNodes t\<rparr>)
          | page # rest \<Rightarrow>
              if found s then (s, t\<lparr>t_pc := Done, t_ret := []\<rparr>)
              else (s, t\<lparr>t_pc := Check, t_pages := rest,
                          t_parent := \<lparr>Title = PageTitle page, Lang = t_lang t, Priority = 0\<rparr>,
                          t_children := children s (t_lang t) (t_dir t) page\<rparr>))
     | Check \<Rightarrow>
         (case t_children t of
            [] \<Rightarrow> (s, t\<lparr>t_pc := NextPage\<rparr>)
          | child # rest \<Rightarrow>
              if other (t_dir t) s (Key child) \<noteq> None
              then (s, t\<lparr>t_pc := Claim child, t_children := rest\<rparr>)
              else (s, t\<lparr>t_pc := Insert child, t_children := rest\<rparr>))
     | Claim child \<Rightarrow>
         if \<not> found s
         then (s\<lparr>found := True, claims := Suc (claims s)\<rparr>, t\<lparr>t_pc := StoreParent child\<rparr>)
         else (s, t\<lparr>t_pc := Insert child\<rparr>)
     | StoreParent child \<Rightarrow>
         (own_store (t_dir t) (Key child) (t_parent t) s, t\<lparr>t_pc := Build child\<rparr>)
     | Build child \<Rightarrow>
         (case buildPath s child of
            None \<Rightarrow> (s, t\<lparr>t_pc := Blocked\<rparr>)
          | Some (Inl e) \<Rightarrow> (s, t\<lparr>t_pc := Panicked\<rparr>)
          | Some (Inr path) \<Rightarrow>
              (s\<lparr>result := path, cancelled := True\<rparr>, t\<lparr>t_pc := Done, t_ret := []\<rparr>))
     | Insert child \<Rightarrow>
         if own (t_dir t) s (Key child) = None
         then (own_store (t_dir t) (Key child) (t_parent t) s,
               t\<lparr>t_pc := Check, t_newNodes := t_newNodes t @ [child]\<rparr>)
         else (s, t\<lparr>t_pc := Check\<rparr>)
     | Done \<Rightarrow> (s, t)
     | Panicked \<Rightarrow> (s, t)
     | Blocked \<Rightarrow> (s, t))"

text \<open>
  A bound on the steps that a call has left, for the termination of \<open>complete\<close>: every page
  costs three steps and four more per link and language link.
\<close>

definition pages_work :: "string \<Rightarrow> Page list \<Rightarrow> nat" where
  "pages_work dir ps =
     sum_list (map (\<lambda>p. 3 + 4 * (length (if dir = ''F'' then Links p else LinksHere p)
                                  + length (LangLinks p))) ps)"

definition work :: "transport \<Rightarrow> task \<Rightarrow> nat" where
  "work tr t =
     (let later = pages_work (t_dir t) (t_pages t);
          answer = (case tr (t_titles t) (t_lang t) (t_dir t) of
                      Response status (Some ps) \<Rightarrow> pages_work (t_dir t) ps
                    | _ \<Rightarrow> 0)
      in case t_pc t of
           Entry \<Rightarrow> 3 + answer
         | Request \<Rightarrow> 2 + answer
         | NextPage \<Rightarrow> 1 + later
         | Check \<Rightarrow> 2 + 4 * length (t_children t) + later
         | Claim child \<Rightarrow> 5 + 4 * length (t_children t) + later
         | Insert child \<Rightarrow> 3 + 4 * length (t_children t) + later
         | StoreParent child \<Rightarrow> 2
         | Build child \<Rightarrow> 1
         | _ \<Rightarrow> 0)"

function complete :: "transport \<Rightarrow> Searcher \<times> task \<Rightarrow> Searcher \<times> task" where
  \<comment> \<open>a call run from where it stands to its end, with no step of another call between\<close>
  "complete tr (s, t) = (if terminal t then (s, t) else complete tr (fetch_step tr (s, t)))"
  by pat_completeness auto
termination
proof (relation "measure (\<lambda>(tr, s, t). work tr t)")
  show "wf (measure (\<lambda>(tr, s, t). work tr t))"
    by simp
next
  fix tr :: transport and s :: Searcher and t :: task
  assume live: "\<not> terminal t"
  have len: "length (children s (t_lang t) (t_dir t) p)
             \<le> length (if t_dir t = ''F'' then Links p else LinksHere p) + length (LangLinks p)"
    for p
    by (simp add: children_def)
  have "work tr (snd (fetch_step tr (s, t))) < work tr t"
  proof (cases "t_pc t")
    case NextPage
    show ?thesis
    proof (cases "t_pages t")
      case Nil
      with NextPage show ?thesis
        by (simp add: fetch_step_def work_def)
    next
      case (Cons p ps)
      with NextPage len [of p] show ?thesis
        by (auto simp: fetch_step_def work_def pages_work_def split: if_splits)
    qed
  next
    case Request
    then show ?thesis
      by (simp add: fetch_step_def work_def Let_def split: http_result.splits option.splits)
  next
    case (Build child)
    then show ?thesis
      by (simp add: fetch_step_def work_def split: option.splits sum.splits)
  qed (use live in \<open>auto simp: fetch_step_def work_def terminal_def
         split: list.splits http_result.splits option.splits\<close>)
  then show "((tr, fetch_step tr (s, t)), tr, s, t) \<in> measure (\<lambda>(tr, s, t). work tr t)"
    by (cases "fetch_step tr (s, t)") simp
qed

section \<open>Concurrent calls\<close>

text \<open>
  The calls of one round, with the state they share. A schedule is the order in which the
  calls take their steps: the number \<open>i\<close> lets call \<open>i\<close> take one step. Every execution of
  the goroutines of a round is a schedule; \<open>wg.Wait()\<close> returns when every call has ended,
  so what a schedule leaves undone is run afterwards, call after call. A goroutine appends
  the nodes of its call to \<open>nextF\<close> (or \<open>nextB\<close>) when it comes to the mutex; \<open>returned\<close> takes
  the calls in the order in which they were started, which is one of the orders that the
  scheduler may choose.
\<close>

type_synonym conf = "Searcher \<times> task list"

definition step :: "transport \<Rightarrow> nat \<Rightarrow> conf \<Rightarrow> conf" where
  "step tr i = (\<lambda>(s, ts).
     if i < length ts then (let (s', t') = fetch_step tr (s, ts ! i) in (s', ts[i := t']))
     else (s, ts))"

definition run :: "transport \<Rightarrow> nat list \<Rightarrow> conf \<Rightarrow> conf" where
  "run tr sched c = fold (step tr) sched c"

definition finish :: "transport \<Rightarrow> nat \<Rightarrow> conf \<Rightarrow> conf" where
  "finish tr i = (\<lambda>(s, ts).
     if i < length ts then (let (s', t') = complete tr (s, ts ! i) in (s', ts[i := t']))
     else (s, ts))"

definition join :: "transport \<Rightarrow> nat list \<Rightarrow> conf \<Rightarrow> conf" where
  "join tr sched c = (let (s, ts) = run tr sched c in fold (finish tr) [0..<length ts] (s, ts))"

definition returned :: "string \<Rightarrow> task list \<Rightarrow> WikiNode list" where
  \<comment> \<open>the nodes that the calls of one direction have returned\<close>
  "returned dir ts = concat (map t_ret (filter (\<lambda>t. t_dir t = dir) ts))"

section \<open>The frontier and the rounds\<close>

text \<open>
  A frontier is a \<open>PriorityQueue\<close>, a slice of nodes kept as a binary heap by
  \<open>container/heap\<close>: \<open>Less\<close> compares the priorities, \<open>Swap\<close> exchanges two places, \<open>heap.Push\<close>
  appends and lets the new node rise (\<open>up\<close>), \<open>heap.Pop\<close> exchanges the first place with the
  last, lets the node that is now first sink among the others (\<open>down\<close>) and takes the last.
  In \<open>up\<close>, Go's \<open>(j - 1) / 2\<close> is 0 for \<open>j = 0\<close>, as the subtraction of \<open>nat\<close> makes it here.
\<close>

definition Less :: "WikiNode list \<Rightarrow> nat \<Rightarrow> nat \<Rightarrow> bool" where
  "Less pq i j = (Priority (pq ! i) < Priority (pq ! j))"

definition Swap :: "WikiNode list \<Rightarrow> nat \<Rightarrow> nat \<Rightarrow> WikiNode list" where
  "Swap pq i j = pq[i := pq ! j, j := pq ! i]"

function heap_up :: "WikiNode list \<Rightarrow> nat \<Rightarrow> WikiNode list" where
  "heap_up pq j =
     (let i = (j - 1) div 2
      in if i = j \<or> \<not> Less pq j i then pq else heap_up (Swap pq i j) i)"
  by pat_completeness auto
termination
  by (relation "measure snd") auto

function heap_down :: "WikiNode list \<Rightarrow> nat \<Rightarrow> nat \<Rightarrow> WikiNode list" where
  "heap_down pq i n =
     (let j1 = 2 * i + 1
      in if j1 \<ge> n then pq
         else
           let j = (if j1 + 1 < n \<and> Less pq (j1 + 1) j1 then j1 + 1 else j1)
           in if \<not> Less pq j i then pq else heap_down (Swap pq i j) j n)"
  by pat_completeness auto
termination
  by (relation "measure (\<lambda>(pq, i, n). n - i)") auto

definition heap_Push :: "WikiNode list \<Rightarrow> WikiNode \<Rightarrow> WikiNode list" where
  "heap_Push pq x = heap_up (pq @ [x]) (length pq)"

definition heap_Pop :: "WikiNode list \<Rightarrow> WikiNode \<times> WikiNode list" where
  \<comment> \<open>called on a queue that is not empty\<close>
  "heap_Pop pq =
     (let n = length pq - 1;
          pq' = heap_down (Swap pq 0 n) 0 n
      in (last pq', butlast pq'))"

definition push_all :: "WikiNode list \<Rightarrow> WikiNode list \<Rightarrow> WikiNode list" where
  \<comment> \<open>\<open>for _, n := range nodes { heap.Push(pq, n) }\<close>\<close>
  "push_all nodes pq = fold (\<lambda>n pq. heap_Push pq n) nodes pq"

fun drain :: "nat \<Rightarrow> WikiNode list \<Rightarrow> WikiNode list \<times> WikiNode list" where
  \<comment> \<open>\<open>for pq.Len() > 0 && count < maxPerRound\<close>: the nodes popped, and the queue left\<close>
  "drain 0 pq = ([], pq)"
| "drain (Suc count) pq =
     (if pq = [] then ([], [])
      else
        let (node, rest) = heap_Pop pq;
            (nodes, pq') = drain count rest
        in (node # nodes, pq'))"

definition byLang :: "WikiNode list \<Rightarrow> (string \<times> string list) list" where
  \<comment> \<open>the map \<open>byLangF\<close> (or \<open>byLangB\<close>); \<open>range\<close> may yield its languages in any order, here
      in the order of their first node\<close>
  "byLang nodes =
     map (\<lambda>l. (l, map Title (filter (\<lambda>n. Lang n = l) nodes))) (remdups (map Lang nodes))"

function batches :: "string list \<Rightarrow> string list list" where
  \<comment> \<open>\<open>titles[i:end]\<close> for \<open>i = 0, 50, 100, ...\<close> (\<open>batchSize = 50\<close>)\<close>
  "batches titles = (if titles = [] then [] else take 50 titles # batches (drop 50 titles))"
  by pat_completeness auto
termination
  by (relation "measure length") auto

definition spawn :: "string \<Rightarrow> WikiNode list \<Rightarrow> task list" where
  "spawn dir nodes =
     concat (map (\<lambda>(lang, titles). map (\<lambda>batch. new_task batch lang dir) (batches titles))
               (byLang nodes))"

text \<open>
  What a search comes to: it returns a path, the process dies of the panic of a call, or
  \<open>wg.Wait()\<close> never returns because a call never ends.
\<close>

datatype outcome = Returned "WikiNode list" | Crashed | Never

text \<open>
  The loop of \<open>Search\<close>. \<open>deadline\<close> is the number of rounds that begin before the loop head
  finds \<open>s.ctx.Done()\<close> ready (the context expires after ten seconds, so the number is
  finite); \<open>r\<close> numbers the round, for its schedule.
\<close>

definition round_conf :: "Searcher \<Rightarrow> WikiNode list \<Rightarrow> WikiNode list \<Rightarrow> conf" where
  \<comment> \<open>the calls of one round (\<open>maxPerRound = 250\<close>), the forward ones first\<close>
  "round_conf s pqF pqB =
     (s, spawn ''F'' (fst (drain 250 pqF)) @ spawn ''B'' (fst (drain 250 pqB)))"

fun rounds ::
  "transport \<Rightarrow> (nat \<Rightarrow> nat list) \<Rightarrow> nat \<Rightarrow> nat \<Rightarrow> Searcher \<Rightarrow> WikiNode list \<Rightarrow> WikiNode list
   \<Rightarrow> Searcher \<times> outcome" where
  "rounds tr sched 0 r s pqF pqB = (s, Returned (result s))"
| "rounds tr sched (Suc deadline) r s pqF pqB =
     (if \<not> (\<not> found s \<and> (pqF \<noteq> [] \<or> pqB \<noteq> [])) then (s, Returned (result s))
      else
        let (s', ts) = join tr (sched r) (round_conf s pqF pqB)
        in if Panicked \<in> set (map t_pc ts) then (s', Crashed)
           else if Blocked \<in> set (map t_pc ts) then (s', Never)
           else if found s' then (s', Returned (result s'))
           else rounds tr sched deadline (Suc r) s'
                  (push_all (returned ''F'' ts) (snd (drain 250 pqF)))
                  (push_all (returned ''B'' ts) (snd (drain 250 pqB))))"

definition seed :: "prober \<Rightarrow> Searcher \<Rightarrow> string \<Rightarrow> string \<Rightarrow> string \<Rightarrow> Searcher \<times> WikiNode \<times> WikiNode"
  where
  \<comment> \<open>\<open>Search\<close> up to the two roots: the searcher, \<open>startNode\<close> and \<open>endNode\<close>\<close>
  "seed prb s0 start end' lang =
     (let (startLang', startTitle) = resolve prb lang start;
          (endLang, endTitle) = resolve prb lang end';
          s = s0\<lparr>startLang := startLang', targetLang := endLang,
                 startWords := wordSet startTitle, targetWords := wordSet endTitle\<rparr>;
          startNode = \<lparr>Title = startTitle, Lang = startLang', Priority = 0\<rparr>;
          endNode = \<lparr>Title = endTitle, Lang = endLang, Priority = 0\<rparr>;
          s = s\<lparr>visitedF := (visitedF s)(Key startNode \<mapsto> None)\<rparr>;
          s = s\<lparr>visitedB := (visitedB s)(Key endNode \<mapsto> None)\<rparr>
      in (s, startNode, endNode))"

definition first_round :: "prober \<Rightarrow> Searcher \<Rightarrow> string \<Rightarrow> string \<Rightarrow> string \<Rightarrow> conf" where
  \<comment> \<open>the two calls of \<open>fetch\<close> that \<open>Search\<close> starts first, with the seeded searcher\<close>
  "first_round prb s0 start end' lang =
     (let (s, startNode, endNode) = seed prb s0 start end' lang
      in (s, [new_task [Title startNode] (Lang startNode) ''F'',
              new_task [Title endNode] (Lang endNode) ''B'']))"

definition Search ::
  "transport \<Rightarrow> prober \<Rightarrow> (nat \<Rightarrow> nat list) \<Rightarrow> nat \<Rightarrow> Searcher \<Rightarrow> string \<Rightarrow> string \<Rightarrow> string
   \<Rightarrow> Searcher \<times> outcome" where
  "Search tr prb sched deadline s0 start end' lang =
     (let (s, startNode, endNode) = seed prb s0 start end' lang
      in if Title startNode = Title endNode \<and> Lang startNode = Lang endNode
         then (s, Returned [startNode])
         else
           let (s', ts) = join tr (sched 0) (first_round prb s0 start end' lang)
           in if Panicked \<in> set (map t_pc ts) then (s', Crashed)
              else if Blocked \<in> set (map t_pc ts) then (s', Never)
              else if found s' then (s', Returned (result s'))
              else rounds tr sched deadline 1 s'
                     (push_all (returned ''F'' ts) []) (push_all (returned ''B'' ts) []))"

definition main_Search ::
  "transport \<Rightarrow> prober \<Rightarrow> (nat \<Rightarrow> nat list) \<Rightarrow> nat \<Rightarrow> string \<Rightarrow> string \<Rightarrow> string
   \<Rightarrow> Searcher \<times> outcome" where
  \<comment> \<open>the two lines of \<open>main\<close> (and of the two API handlers) that make a searcher and
      search with it\<close>
  "main_Search tr prb sched deadline start end' lang =
     Search tr prb sched deadline (NewSearcher lang start lang end') start end' lang"

section \<open>Two executions side by side\<close>









section \<open>The wording of the specification\<close>

text \<open>
  A request is answered when \<open>client.Do\<close> gave a response, and decoded when the body of
  that response decoded as well.
\<close>

definition answered :: "http_result \<Rightarrow> bool" where
  "answered r = (case r of TransportError \<Rightarrow> False | Response status body \<Rightarrow> True)"

definition decoded :: "http_result \<Rightarrow> bool" where
  "decoded r = (case r of Response status (Some pages) \<Rightarrow> True | _ \<Rightarrow> False)"

text \<open>
  The score as the specification words it: the target side is the end node's for the
  forward direction and the start node's for the backward one; 40 is taken off per
  target-side word that is a whole token (of length above 2) of the lower-cased title, 20 per
  target-side word that is a substring of it.
\<close>

definition score_spec :: "Searcher \<Rightarrow> string \<Rightarrow> string \<Rightarrow> string \<Rightarrow> int" where
  "score_spec s title lang dir =
     (let words = (if dir = ''F'' then targetWords s else startWords s);
          side = (if dir = ''F'' then targetLang s else startLang s);
          tokens = filter (\<lambda>word. length word > 2) (Fields (ToLower title))
      in 100
         - (if lang = side then 25 else 0)
         - 40 * int (card {w \<in> set words. w \<in> set tokens})
         - 20 * int (card {w \<in> set words. Contains (ToLower title) w})
         - (if lang = ''en'' \<or> lang = ''ru'' then 10 else 0)
         - (if length title < 20 then 5 else 0)
         + (if length title > 60 then 15 else 0))"

text \<open>
  The prober as the specification words it: the candidates are \<open>ru\<close>, \<open>en\<close> when the title
  has a rune of the block Cyrillic and \<open>en\<close>, \<open>ru\<close> otherwise; a candidate succeeds with a
  page whose id is not negative and whose flag \<open>missing\<close> is unset; without a success the
  search goes on with the default language and the raw title.
\<close>

definition cyrillic_spec :: "int \<Rightarrow> bool" where
  "cyrillic_spec r = (0x400 \<le> r \<and> r \<le> 0x4FF)"

definition candidates_spec :: "string \<Rightarrow> string list" where
  "candidates_spec title =
     (if \<exists>r \<in> set (runes title). cyrillic_spec r then [''ru'', ''en''] else [''en'', ''ru''])"

definition negative_id :: "string \<Rightarrow> bool" where
  "negative_id pid = (case pid of [] \<Rightarrow> False | c # cs \<Rightarrow> c = CHR ''-'')"

definition probe_title_spec :: "probe_result \<Rightarrow> string option" where
  "probe_title_spec r =
     (case r of
        Decoded pages \<Rightarrow>
          map_option (\<lambda>(pid, title, missing). title)
            (find (\<lambda>(pid, title, missing). \<not> negative_id pid \<and> \<not> missing) pages)
      | _ \<Rightarrow> None)"

definition resolve_spec :: "prober \<Rightarrow> string \<Rightarrow> string \<Rightarrow> string \<times> string" where
  "resolve_spec prb lang title =
     (case List.map_filter (\<lambda>l. map_option (Pair l) (probe_title_spec (prb l title)))
             (candidates_spec title) of
        [] \<Rightarrow> (lang, title)
      | hit # hits \<Rightarrow> hit)"

section \<open>Inputs of the examples\<close>

text \<open>
  Probers: the English Wikipedia has every title under the page id 1 and no other language
  answers; both candidate languages have the title; the one page of the English answer
  has the id \<open>-2\<close> and the Russian answer comes too late.
\<close>

definition probe_en :: prober where
  "probe_en l title = (if l = ''en'' then Decoded [(''1'', title, False)] else Failed)"

definition probe_both :: prober where
  "probe_both l title = Decoded [(''7'', title, False)]"

definition probe_neg :: prober where
  "probe_neg l title = (if l = ''en'' then Decoded [(''-2'', title, False)] else Lost)"

text \<open>
  Transports. \<open>tr_direct\<close>: the article \<open>Tea\<close> links to \<open>Cup\<close>. \<open>tr_redirect\<close>: \<open>Tea\<close> links to
  \<open>UK\<close>, a redirect that the server resolves to \<open>United Kingdom\<close>, which links to \<open>London\<close>,
  which links to \<open>Thames\<close>. \<open>tr_red_meat\<close>: the article \<open>Red meat\<close> links to the article
  \<open>Red Meat\<close>; the two titles have the same key. \<open>tr_beef\<close>: \<open>Red meat\<close> links to \<open>Beef\<close>, and
  \<open>Max Cannon\<close> links to \<open>Red Meat\<close>. \<open>tr_water\<close>: \<open>Tea\<close> links to \<open>Milk\<close> and \<open>Sugar\<close>, both
  link to \<open>Water\<close>, which links to \<open>London\<close>, which links to \<open>Thames\<close>. \<open>tr_undecodable\<close>:
  every response has a body that does not decode. \<open>tr_503\<close>: every response has the status
  503 and a body that decodes. \<open>tr_tee\<close>: \<open>Tea\<close> links to \<open>Milk\<close> and has the German language
  link \<open>Tee\<close>, \<open>Milk\<close> links to \<open>London\<close>, which links to \<open>Thames\<close>; the request for \<open>Tee\<close>
  fails in the transport. \<open>tr_tee_503\<close>: the same with the status 503 on every response.
\<close>

definition tr_direct :: transport where
  "tr_direct titles lang dir =
     (if titles = [''Tea''] \<and> lang = ''en'' \<and> dir = ''F'' then
        Response 200 (Some [\<lparr>PageTitle = ''Tea'', Links = [''Cup''], LinksHere = [],
                             LangLinks = []\<rparr>])
      else if titles = [''Cup''] \<and> lang = ''en'' \<and> dir = ''B'' then
        Response 200 (Some [\<lparr>PageTitle = ''Cup'', Links = [], LinksHere = [''Tea''],
                             LangLinks = []\<rparr>])
      else TransportError)"

definition tr_redirect :: transport where
  "tr_redirect titles lang dir =
     (if titles = [''Tea''] \<and> lang = ''en'' \<and> dir = ''F'' then
        Response 200 (Some [\<lparr>PageTitle = ''Tea'', Links = [''UK''], LinksHere = [],
                             LangLinks = []\<rparr>])
      else if titles = [''Thames''] \<and> lang = ''en'' \<and> dir = ''B'' then
        Response 200 (Some [\<lparr>PageTitle = ''Thames'', Links = [], LinksHere = [''London''],
                             LangLinks = []\<rparr>])
      else if titles = [''UK''] \<and> lang = ''en'' \<and> dir = ''F'' then
        Response 200 (Some [\<lparr>PageTitle = ''United Kingdom'', Links = [''London''],
                             LinksHere = [], LangLinks = []\<rparr>])
      else TransportError)"

definition tr_red_meat :: transport where
  "tr_red_meat titles lang dir =
     (if titles = [''Red meat''] \<and> lang = ''en'' \<and> dir = ''F'' then
        Response 200 (Some [\<lparr>PageTitle = ''Red meat'', Links = [''Red Meat''], LinksHere = [],
                             LangLinks = []\<rparr>])
      else TransportError)"

definition tr_beef :: transport where
  "tr_beef titles lang dir =
     (if titles = [''Red meat''] \<and> lang = ''en'' \<and> dir = ''F'' then
        Response 200 (Some [\<lparr>PageTitle = ''Red meat'', Links = [''Beef''], LinksHere = [],
                             LangLinks = []\<rparr>])
      else if titles = [''Red Meat''] \<and> lang = ''en'' \<and> dir = ''B'' then
        Response 200 (Some [\<lparr>PageTitle = ''Red Meat'', Links = [], LinksHere = [''Max Cannon''],
                             LangLinks = []\<rparr>])
      else TransportError)"

definition tr_water :: transport where
  "tr_water titles lang dir =
     (if titles = [''Tea''] \<and> lang = ''en'' \<and> dir = ''F'' then
        Response 200 (Some [\<lparr>PageTitle = ''Tea'', Links = [''Milk'', ''Sugar''], LinksHere = [],
                             LangLinks = []\<rparr>])
      else if titles = [''Thames''] \<and> lang = ''en'' \<and> dir = ''B'' then
        Response 200 (Some [\<lparr>PageTitle = ''Thames'', Links = [], LinksHere = [''London''],
                             LangLinks = []\<rparr>])
      else if titles = [''Milk'', ''Sugar''] \<and> lang = ''en'' \<and> dir = ''F'' then
        Response 200 (Some [\<lparr>PageTitle = ''Milk'', Links = [''Water''], LinksHere = [],
                             LangLinks = []\<rparr>,
                            \<lparr>PageTitle = ''Sugar'', Links = [''Water''], LinksHere = [],
                             LangLinks = []\<rparr>])
      else if titles = [''London''] \<and> lang = ''en'' \<and> dir = ''B'' then
        Response 200 (Some [\<lparr>PageTitle = ''London'', Links = [], LinksHere = [''Water''],
                             LangLinks = []\<rparr>])
      else TransportError)"



definition tr_undecodable :: transport where
  "tr_undecodable titles lang dir = Response 200 None"


text \<open>
  Schedules of a round of two calls, the forward one numbered 0. \<open>race\<close>: both calls reach
  their compare-and-swap, the backward call wins it, the forward call loses it. \<open>late\<close>:
  both calls pass their check of the other map for the same child before either inserts
  it, and the forward call then meets the child again on its next page. \<open>cup_race\<close> is the
  first round of the search from \<open>Tea\<close> to \<open>Cup\<close> after the schedule \<open>race\<close>, \<open>tea_thames\<close> the
  searcher from \<open>Tea\<close> to \<open>Thames\<close> with its two roots stored; \<open>tee_first\<close> lets the call for
  \<open>Tee\<close>, call 1 of round 1, send its request before the other calls of its round take a
  step.
\<close>

definition race :: "nat list" where
  "race = [0, 0, 0, 0, 1, 1, 1, 1, 1, 0]"

definition late :: "nat list" where
  "late = [0, 0, 0, 0, 1, 1, 1, 1, 0, 1, 0, 0, 0, 0]"

definition cup_race :: conf where
  "cup_race = run tr_direct race
     (first_round probe_en (NewSearcher ''en'' ''Tea'' ''en'' ''Cup'') ''Tea'' ''Cup'' ''en'')"



section \<open>Properties of the scorer\<close>

lemma fold_token_bonus:
  "fold (\<lambda>word score. if P word then score - 40 else score) ws (score :: int)
   = score - 40 * int (length (filter P ws))"
  by (induction ws arbitrary: score) auto

lemma fold_substring_bonus:
  "fold (\<lambda>word score. if P word then score - 20 else score) ws (score :: int)
   = score - 20 * int (length (filter P ws))"
  by (induction ws arbitrary: score) auto

lemma length_filter_remdups:
  "length (filter P (remdups ws)) = card {w \<in> set ws. P w}"
proof -
  have "distinct (filter P (remdups ws))"
    by simp
  then have "card (set (filter P (remdups ws))) = length (filter P (remdups ws))"
    by (rule distinct_card)
  moreover have "set (filter P (remdups ws)) = {w \<in> set ws. P w}"
    by auto
  ultimately show ?thesis
    by simp
qed

lemma heuristic_closed_form:
  "heuristic s title lang dir =
     100
     - (if lang = (if dir = ''F'' then targetLang s else startLang s) then 25 else 0)
     - 40 * int (length (filter
          (\<lambda>word. length word > 2 \<and> word \<in> set (if dir = ''F'' then targetWords s else startWords s))
          (Fields (ToLower title))))
     - 20 * int (card {w \<in> set (if dir = ''F'' then targetWords s else startWords s).
                       Contains (ToLower title) w})
     - (if lang = ''en'' \<or> lang = ''ru'' then 10 else 0)
     - (if length title < 20 then 5 else 0)
     + (if length title > 60 then 15 else 0)"
  unfolding heuristic_def Let_def fold_token_bonus fold_substring_bonus length_filter_remdups
  by simp

lemma api_heuristic_closed_form:
  "api_heuristic a title lang dir =
     100
     - (if lang = (if dir = ''F'' then api_targetLang a else api_startLang a) then 25 else 0)
     - 40 * int (length (filter
          (\<lambda>word. length word > 2
                   \<and> word \<in> set (if dir = ''F'' then api_targetWords a else api_startWords a))
          (Fields (ToLower title))))
     - 20 * int (card {w \<in> set (if dir = ''F'' then api_targetWords a else api_startWords a).
                       Contains (ToLower title) w})
     - (if lang = ''en'' \<or> lang = ''ru'' then 10 else 0)
     - (if length title < 20 then 5 else 0)
     + (if length title > 60 then 15 else 0)"
  unfolding api_heuristic_def Let_def fold_token_bonus fold_substring_bonus length_filter_remdups
  by simp

text \<open>
  Claim C6, as the code has it. The score is 100, minus 25 if \<open>lang\<close> is the target-side
  language, minus 40 for every token of the lower-cased title (a token counted as often as
  it occurs) that is longer than 2 bytes and is a target-side word, minus 20 for every
  target-side word that is a substring of the lower-cased title, minus 10 if \<open>lang\<close> is
  \<open>en\<close> or \<open>ru\<close>, minus 5 if the title is shorter than 20 bytes, plus 15 if it is longer
  than 60; the target side is the end node's for the direction \<open>F\<close> and the start node's for
  any other direction.
\<close>

theorem heuristic_score:
  "heuristic s title lang dir =
     100
     - (if lang = (if dir = ''F'' then targetLang s else startLang s) then 25 else 0)
     - 40 * int (length (filter
          (\<lambda>word. length word > 2 \<and> word \<in> set (if dir = ''F'' then targetWords s else startWords s))
          (Fields (ToLower title))))
     - 20 * int (card {w \<in> set (if dir = ''F'' then targetWords s else startWords s).
                       Contains (ToLower title) w})
     - (if lang = ''en'' \<or> lang = ''ru'' then 10 else 0)
     - (if length title < 20 then 5 else 0)
     + (if length title > 60 then 15 else 0)"
proof -
  let ?words = "if dir = ''F'' then targetWords s else startWords s"
  have tokens: "fold (\<lambda>word score. if length word > 2 \<and> word \<in> set ?words then score - 40 else score)
                  (Fields (ToLower title)) score
                = score - 40 * int (length (filter (\<lambda>word. length word > 2 \<and> word \<in> set ?words)
                                          (Fields (ToLower title))))" for score :: int
    by (rule fold_token_bonus)
  have substrings: "fold (\<lambda>word score. if Contains (ToLower title) word then score - 20 else score)
                      (remdups ?words) score
                    = score - 20 * int (card {w \<in> set ?words. Contains (ToLower title) w})"
    for score :: int
    by (simp only: fold_substring_bonus length_filter_remdups)
  show ?thesis
    unfolding heuristic_def Let_def tokens substrings by simp
qed

theorem heuristic_score_witness:
  "heuristic (NewSearcher ''en'' ''Rio'' ''en'' ''Duran Duran'') ''Duran Duran (album)'' ''en'' ''F''
   = 100 - 25 - 40 * 2 - 20 * 1 - 10 - 5 + 0"
proof -
  have "100
     - (if ''en'' = (if ''F'' = ''F'' then targetLang (NewSearcher ''en'' ''Rio'' ''en'' ''Duran Duran'')
                     else startLang (NewSearcher ''en'' ''Rio'' ''en'' ''Duran Duran'')) then 25 else 0)
     - 40 * int (length (filter
          (\<lambda>word. length word > 2
             \<and> word \<in> set (if ''F'' = ''F'' then targetWords (NewSearcher ''en'' ''Rio'' ''en'' ''Duran Duran'')
                             else startWords (NewSearcher ''en'' ''Rio'' ''en'' ''Duran Duran'')))
          (Fields (ToLower ''Duran Duran (album)''))))
     - 20 * int (card {w \<in> set (if ''F'' = ''F'' then targetWords (NewSearcher ''en'' ''Rio'' ''en'' ''Duran Duran'')
                                 else startWords (NewSearcher ''en'' ''Rio'' ''en'' ''Duran Duran'')).
                       Contains (ToLower ''Duran Duran (album)'') w})
     - (if ''en'' = ''en'' \<or> ''en'' = ''ru'' then 10 else 0)
     - (if length ''Duran Duran (album)'' < 20 then 5 else 0)
     + (if length ''Duran Duran (album)'' > 60 then 15 else 0)
     = (100 - 25 - 40 * 2 - 20 * 1 - 10 - 5 + 0 :: int)"
    by code_simp
  then show ?thesis
    by (simp only: heuristic_score)
qed

text \<open>
  Claim C6, as it is worded, fails where a target-side word occurs twice among the tokens
  of a title: with the end title \<open>Duran Duran\<close> the only target-side word is \<open>duran\<close>, and
  the link \<open>Duran Duran (album)\<close> loses 40 twice in the code and once in the wording.
\<close>

theorem heuristic_repeated_token_counterexample:
  "heuristic (NewSearcher ''en'' ''Rio'' ''en'' ''Duran Duran'') ''Duran Duran (album)'' ''en'' ''F''
     = -40
   \<and> score_spec (NewSearcher ''en'' ''Rio'' ''en'' ''Duran Duran'') ''Duran Duran (album)'' ''en'' ''F''
     = 0"
  by code_simp

text \<open>
  Claim C10. The scorer of the command-line searcher and the scorer of the API searcher
  give the same integer for every title, language and direction, when the two searchers
  hold the same start and target languages and the same start and target word sets.
\<close>

theorem heuristic_api_agree:
  assumes "startLang s = api_startLang a" and "targetLang s = api_targetLang a"
    and "set (startWords s) = set (api_startWords a)"
    and "set (targetWords s) = set (api_targetWords a)"
  shows "heuristic s title lang dir = api_heuristic a title lang dir"
proof (cases "dir = ''F''")
  case True
  with assms(2,4) show ?thesis
    by (simp add: heuristic_closed_form api_heuristic_closed_form)
next
  case False
  with assms(1,3) show ?thesis
    by (simp add: heuristic_closed_form api_heuristic_closed_form)
qed

theorem heuristic_api_agree_witness:
  "heuristic (NewSearcher ''ru'' ''Rio de Janeiro'' ''en'' ''Duran Duran'') ''Duran Duran (album)'' ''en'' ''F''
   = api_heuristic \<lparr>api_targetLang = ''en'', api_startLang = ''ru'',
        api_startWords = [''janeiro'', ''rio''], api_targetWords = [''duran'']\<rparr>
       ''Duran Duran (album)'' ''en'' ''F''"
proof (rule heuristic_api_agree)
  show "startLang (NewSearcher ''ru'' ''Rio de Janeiro'' ''en'' ''Duran Duran'')
        = api_startLang \<lparr>api_targetLang = ''en'', api_startLang = ''ru'',
            api_startWords = [''janeiro'', ''rio''], api_targetWords = [''duran'']\<rparr>"
    by (simp add: NewSearcher_def)
  show "targetLang (NewSearcher ''ru'' ''Rio de Janeiro'' ''en'' ''Duran Duran'')
        = api_targetLang \<lparr>api_targetLang = ''en'', api_startLang = ''ru'',
            api_startWords = [''janeiro'', ''rio''], api_targetWords = [''duran'']\<rparr>"
    by (simp add: NewSearcher_def)
  show "set (startWords (NewSearcher ''ru'' ''Rio de Janeiro'' ''en'' ''Duran Duran''))
        = set (api_startWords \<lparr>api_targetLang = ''en'', api_startLang = ''ru'',
            api_startWords = [''janeiro'', ''rio''], api_targetWords = [''duran'']\<rparr>)"
    by code_simp
  show "set (targetWords (NewSearcher ''ru'' ''Rio de Janeiro'' ''en'' ''Duran Duran''))
        = set (api_targetWords \<lparr>api_targetLang = ''en'', api_startLang = ''ru'',
            api_startWords = [''janeiro'', ''rio''], api_targetWords = [''duran'']\<rparr>)"
    by code_simp
qed

text \<open>
  Titles beyond ASCII. Some rows of the case table: Latin Extended-A (\<open>U+0141\<close>, \<open>U+0179\<close>),
  the dotted capital I, Cyrillic (\<open>U+0401\<close>, \<open>U+0490\<close>), Greek, the capital sharp s, Georgian,
  the Kelvin sign and Adlam; a small letter, the multiplication sign and a letter without
  case are kept. The capitals of the Polish name of the town Lodz, written with its
  diacritics (the bytes \<open>C5 81 C3 93 44 C5 B9\<close>), score 0 against the target of the same name
  in small letters: the title is lower-cased to the target word, which is found once as a
  token and once as a substring.
\<close>

lemma unicode_ToLower_rows:
  "map unicode_ToLower
     [0x141, 0x179, 0x130, 0x401, 0x490, 0x3A3, 0x1E9E, 0x10A0, 0x1C90, 0x212A, 0x1E900,
      0x142, 0xD7, 0x5D0]
   = [0x142, 0x17A, 0x69, 0x451, 0x491, 0x3C3, 0xDF, 0x2D00, 0x10D0, 0x6B, 0x1E922,
      0x142, 0xD7, 0x5D0]"
  by code_simp

lemma heuristic_beyond_ascii:
  "ToLower [CHR 0xC5, CHR 0x81, CHR 0xC3, CHR 0x93, CHR ''D'', CHR 0xC5, CHR 0xB9]
   = [CHR 0xC5, CHR 0x82, CHR 0xC3, CHR 0xB3, CHR ''d'', CHR 0xC5, CHR 0xBA]
   \<and> heuristic
       (NewSearcher ''en'' ''Tea'' ''en''
          [CHR 0xC5, CHR 0x82, CHR 0xC3, CHR 0xB3, CHR ''d'', CHR 0xC5, CHR 0xBA])
       [CHR 0xC5, CHR 0x81, CHR 0xC3, CHR 0x93, CHR ''D'', CHR 0xC5, CHR 0xB9] ''en'' ''F'' = 0"
  by code_simp

section \<open>Properties of the prober\<close>

lemma guess_runes_letters:
  "guess_runes rs = (if \<exists>r \<in> set rs. russian_letter r then ''ru'' else ''en'')"
  by (induction rs) auto

lemma candidates_letters:
  "candidates title
   = (if \<exists>r \<in> set (runes title). russian_letter r then [''ru'', ''en''] else [''en'', ''ru''])"
  by (simp add: candidates_def guessLang_def guess_runes_letters Let_def)

lemma first_page_find:
  "first_page pages
   = map_option (\<lambda>(pid, title, missing). title)
       (find (\<lambda>(pid, title, missing). pid \<noteq> ''-1'' \<and> \<not> missing) pages)"
  by (induction pages rule: first_page.induct) auto

lemma resolve_two:
  assumes "candidates title = [c1, c2]" and "c1 \<noteq> c2" and "c1 \<noteq> ''''" and "c2 \<noteq> ''''"
  shows "resolve prb lang title
         = (case probe_title (prb c1 title) of
              Some t \<Rightarrow> (c1, t)
            | None \<Rightarrow> (case probe_title (prb c2 title) of
                         Some t \<Rightarrow> (c2, t)
                       | None \<Rightarrow> (lang, title)))"
  using assms by (auto simp: resolve_def detectLang_def Let_def split: option.splits)

text \<open>
  Claim C8, as the code has it. The candidates are \<open>ru\<close>, \<open>en\<close> when the title has a rune
  from \<open>U+0410\<close> to \<open>U+044F\<close> or one of \<open>U+0451\<close>, \<open>U+0401\<close>, and \<open>en\<close>, \<open>ru\<close> otherwise. The
  search goes on with the language and the title of the first candidate, in the order of
  the candidates, whose received answer has a page with a key other than \<open>-1\<close> and the flag
  \<open>missing\<close> unset (the title is that of the first such page), and with the default language
  and the raw title when neither candidate has one. An answer that was not received in
  time and a failed request have no such page.
\<close>

theorem prober_first_candidate:
  "candidates title
     = (if \<exists>r \<in> set (runes title). russian_letter r then [''ru'', ''en''] else [''en'', ''ru''])
   \<and> resolve prb lang title
     = (case probe_title (prb (candidates title ! 0) title) of
          Some t \<Rightarrow> (candidates title ! 0, t)
        | None \<Rightarrow> (case probe_title (prb (candidates title ! 1) title) of
                     Some t \<Rightarrow> (candidates title ! 1, t)
                   | None \<Rightarrow> (lang, title)))
   \<and> probe_title Lost = None \<and> probe_title Failed = None
   \<and> probe_title (Decoded pages)
     = map_option (\<lambda>(pid, title, missing). title)
         (find (\<lambda>(pid, title, missing). pid \<noteq> ''-1'' \<and> \<not> missing) pages)"
proof -
  have "candidates title = [''ru'', ''en''] \<or> candidates title = [''en'', ''ru'']"
    by (simp add: candidates_letters)
  then have "resolve prb lang title
     = (case probe_title (prb (candidates title ! 0) title) of
          Some t \<Rightarrow> (candidates title ! 0, t)
        | None \<Rightarrow> (case probe_title (prb (candidates title ! 1) title) of
                     Some t \<Rightarrow> (candidates title ! 1, t)
                   | None \<Rightarrow> (lang, title)))"
  proof
    assume c: "candidates title = [''ru'', ''en'']"
    show ?thesis
      using resolve_two [OF c] by (simp add: c split: option.splits)
  next
    assume c: "candidates title = [''en'', ''ru'']"
    show ?thesis
      using resolve_two [OF c] by (simp add: c split: option.splits)
  qed
  then show ?thesis
    by (simp add: candidates_letters probe_title_def first_page_find)
qed

theorem prober_first_candidate_witness:
  "candidates [CHR 0xD0, CHR 0x9A, CHR 0xD0, CHR 0xBE, CHR 0xD1, CHR 0x82] = [''ru'', ''en'']
   \<and> resolve probe_neg ''ru'' ''Tea'' = (''en'', ''Tea'')"
proof -
  have "(if \<exists>r \<in> set (runes [CHR 0xD0, CHR 0x9A, CHR 0xD0, CHR 0xBE, CHR 0xD1, CHR 0x82]).
            russian_letter r
         then [''ru'', ''en''] else [''en'', ''ru'']) = [''ru'', ''en'']"
    by code_simp
  moreover have "(case probe_title (probe_neg (candidates ''Tea'' ! 0) ''Tea'') of
          Some t \<Rightarrow> (candidates ''Tea'' ! 0, t)
        | None \<Rightarrow> (case probe_title (probe_neg (candidates ''Tea'' ! 1) ''Tea'') of
                     Some t \<Rightarrow> (candidates ''Tea'' ! 1, t)
                   | None \<Rightarrow> (''ru'', ''Tea''))) = (''en'', ''Tea'')"
    by code_simp
  ultimately show ?thesis
    using prober_first_candidate [of "[CHR 0xD0, CHR 0x9A, CHR 0xD0, CHR 0xBE, CHR 0xD1, CHR 0x82]"]
      prober_first_candidate [of "''Tea''" probe_neg "''ru''"]
    by simp
qed

text \<open>
  Claim C8, as it is worded, fails twice. The title with the bytes \<open>D0 87 D1 97\<close> is the
  Ukrainian word of the two Cyrillic letters \<open>U+0407\<close> and \<open>U+0457\<close>, neither of them a
  letter of the Russian alphabet: when both languages have the page, the code tries \<open>en\<close>
  first and the wording \<open>ru\<close>. And a page under the key \<open>-2\<close> is a success for the code,
  which excludes the key \<open>-1\<close> only, and none for the wording.
\<close>

theorem prober_counterexample:
  "resolve probe_both ''uk'' [CHR 0xD0, CHR 0x87, CHR 0xD1, CHR 0x97]
     = (''en'', [CHR 0xD0, CHR 0x87, CHR 0xD1, CHR 0x97])
   \<and> resolve_spec probe_both ''uk'' [CHR 0xD0, CHR 0x87, CHR 0xD1, CHR 0x97]
     = (''ru'', [CHR 0xD0, CHR 0x87, CHR 0xD1, CHR 0x97])
   \<and> resolve probe_neg ''ru'' ''Tea'' = (''en'', ''Tea'')
   \<and> resolve_spec probe_neg ''ru'' ''Tea'' = (''ru'', ''Tea'')"
  by code_simp

section \<open>The order of the frontier\<close>

text \<open>
  \<open>container/heap\<close> gives the nodes by rising priority, and nodes of the same priority in
  the order that the exchanges of \<open>Pop\<close> leave: of three nodes of one priority pushed as
  \<open>A\<close>, \<open>B\<close>, \<open>C\<close>, the first \<open>Pop\<close> moves \<open>C\<close> to the front, so they come as \<open>A\<close>, \<open>C\<close>, \<open>B\<close>.
\<close>

lemma frontier_order:
  "map Title (fst (drain 250 (push_all
     [\<lparr>Title = ''A'', Lang = ''en'', Priority = 5\<rparr>, \<lparr>Title = ''B'', Lang = ''en'', Priority = 3\<rparr>,
      \<lparr>Title = ''C'', Lang = ''en'', Priority = 9\<rparr>, \<lparr>Title = ''D'', Lang = ''en'', Priority = 1\<rparr>,
      \<lparr>Title = ''E'', Lang = ''en'', Priority = 3\<rparr>, \<lparr>Title = ''F'', Lang = ''en'', Priority = 7\<rparr>] [])))
   = [''D'', ''B'', ''E'', ''A'', ''F'', ''C'']
   \<and> map Title (fst (drain 250 (push_all
     [\<lparr>Title = ''A'', Lang = ''en'', Priority = 5\<rparr>, \<lparr>Title = ''B'', Lang = ''en'', Priority = 5\<rparr>,
      \<lparr>Title = ''C'', Lang = ''en'', Priority = 5\<rparr>] [])))
   = [''A'', ''C'', ''B'']"
  by code_simp

section \<open>Invariants of the shared state\<close>

text \<open>
  A property of the searcher that every step of every call keeps is kept by every
  schedule, by the end of a round, by the rounds and by the search.
\<close>

lemma complete_preserves:
  "(\<And>s t. I s \<Longrightarrow> I (fst (fetch_step tr (s, t)))) \<Longrightarrow> I s \<Longrightarrow> I (fst (complete tr (s, t)))"
proof (induction tr "(s, t)" arbitrary: s t rule: complete.induct)
  case (1 tr s t)
  show ?case
  proof (cases "terminal t")
    case True
    with 1(3) show ?thesis by simp
  next
    case False
    obtain s' t' where st: "fetch_step tr (s, t) = (s', t')"
      by (cases "fetch_step tr (s, t)")
    have "I (fst (fetch_step tr (s, t)))"
      using 1(3) by (rule 1(2))
    then have "I s'"
      unfolding st fst_conv .
    with 1(2) have "I (fst (complete tr (s', t')))"
      by (rule 1(1) [OF False st])
    with False st show ?thesis
      by simp
  qed
qed

lemma step_preserves:
  assumes inv: "\<And>s t. I s \<Longrightarrow> I (fst (fetch_step tr (s, t)))"
  shows "I (fst c) \<Longrightarrow> I (fst (step tr i c))"
  using inv [of "fst c" "snd c ! i"]
  by (cases c) (auto simp: step_def split: prod.splits)

lemma run_preserves:
  assumes inv: "\<And>s t. I s \<Longrightarrow> I (fst (fetch_step tr (s, t)))"
  shows "I (fst c) \<Longrightarrow> I (fst (run tr sched c))"
  unfolding run_def
proof (induction sched arbitrary: c)
  case Nil
  then show ?case by simp
next
  case (Cons i sched)
  have "I (fst (step tr i c))"
    using inv Cons.prems by (rule step_preserves)
  then have "I (fst (fold (step tr) sched (step tr i c)))"
    by (rule Cons.IH)
  then show ?case by simp
qed

lemma finish_preserves:
  assumes inv: "\<And>s t. I s \<Longrightarrow> I (fst (fetch_step tr (s, t)))"
  shows "I (fst c) \<Longrightarrow> I (fst (finish tr i c))"
proof -
  assume a: "I (fst c)"
  have "I (fst (complete tr (fst c, snd c ! i)))"
    using inv a by (rule complete_preserves)
  with a show ?thesis
    by (cases c) (auto simp: finish_def split: prod.splits)
qed

lemma fold_finish_preserves:
  assumes inv: "\<And>s t. I s \<Longrightarrow> I (fst (fetch_step tr (s, t)))"
  shows "I (fst c) \<Longrightarrow> I (fst (fold (finish tr) is c))"
proof (induction "is" arbitrary: c)
  case Nil
  then show ?case by simp
next
  case (Cons i "is")
  have "I (fst (finish tr i c))"
    using inv Cons.prems by (rule finish_preserves)
  then have "I (fst (fold (finish tr) is (finish tr i c)))"
    by (rule Cons.IH)
  then show ?case by simp
qed

lemma join_preserves:
  assumes inv: "\<And>s t. I s \<Longrightarrow> I (fst (fetch_step tr (s, t)))"
  shows "I (fst c) \<Longrightarrow> I (fst (join tr sched c))"
proof -
  assume a: "I (fst c)"
  have "I (fst (run tr sched c))"
    using inv a by (rule run_preserves)
  then have "I (fst (fold (finish tr) [0..<length (snd (run tr sched c))] (run tr sched c)))"
    using inv by (rule fold_finish_preserves [rotated])
  then show ?thesis
    by (cases "run tr sched c") (simp add: join_def)
qed

lemma rounds_preserves:
  assumes inv: "\<And>s t. I s \<Longrightarrow> I (fst (fetch_step tr (s, t)))"
  shows "I s \<Longrightarrow> I (fst (rounds tr sched deadline r s pqF pqB))"
proof (induction deadline arbitrary: r s pqF pqB)
  case 0
  then show ?case by simp
next
  case (Suc deadline)
  show ?case
  proof (cases "\<not> found s \<and> (pqF \<noteq> [] \<or> pqB \<noteq> [])")
    case False
    with Suc.prems show ?thesis by auto
  next
    case True
    let ?c = "round_conf s pqF pqB"
    obtain s' ts where j: "join tr (sched r) ?c = (s', ts)"
      by (cases "join tr (sched r) ?c")
    have "I (fst ?c)"
      using Suc.prems by (simp add: round_conf_def)
    with inv have "I (fst (join tr (sched r) ?c))"
      by (rule join_preserves)
    then have s': "I s'"
      unfolding j fst_conv .
    then have "I (fst (rounds tr sched deadline (Suc r) s'
                  (push_all (returned ''F'' ts) (snd (drain 250 pqF)))
                  (push_all (returned ''B'' ts) (snd (drain 250 pqB)))))"
      by (rule Suc.IH)
    with True j s' show ?thesis
      by simp
  qed
qed

lemma Search_preserves:
  assumes inv: "\<And>s t. I s \<Longrightarrow> I (fst (fetch_step tr (s, t)))"
    and seeded: "I (fst (seed prb s0 start end' lang))"
  shows "I (fst (Search tr prb sched deadline s0 start end' lang))"
proof -
  obtain s startNode endNode where sd: "seed prb s0 start end' lang = (s, startNode, endNode)"
    by (cases "seed prb s0 start end' lang")
  let ?c = "first_round prb s0 start end' lang"
  have fc: "fst ?c = s"
    by (simp add: first_round_def sd)
  obtain s' ts where j: "join tr (sched 0) ?c = (s', ts)"
    by (cases "join tr (sched 0) ?c")
  have s: "I s"
    using seeded sd by simp
  then have "I (fst ?c)"
    by (simp add: fc)
  with inv have "I (fst (join tr (sched 0) ?c))"
    by (rule join_preserves)
  then have s': "I s'"
    unfolding j fst_conv .
  with inv have "I (fst (rounds tr sched deadline 1 s'
                    (push_all (returned ''F'' ts) []) (push_all (returned ''B'' ts) [])))"
    by (rule rounds_preserves)
  with s s' sd j show ?thesis
    by (simp add: Search_def)
qed

lemma seed_fields:
  "reqCount (fst (seed prb s0 start end' lang)) = reqCount s0"
  "wire (fst (seed prb s0 start end' lang)) = wire s0"
  "found (fst (seed prb s0 start end' lang)) = found s0"
  "claims (fst (seed prb s0 start end' lang)) = claims s0"
  "result (fst (seed prb s0 start end' lang)) = result s0"
  by (simp_all add: seed_def Let_def split: prod.splits)

lemma own_store_fields:
  "reqCount (own_store dir key p s) = reqCount s"
  "wire (own_store dir key p s) = wire s"
  "found (own_store dir key p s) = found s"
  "claims (own_store dir key p s) = claims s"
  "result (own_store dir key p s) = result s"
  by (simp_all add: own_store_def)

lemma fetch_step_counts:
  assumes "reqCount s - int (length (filter answered (map snd (wire s)))) = k"
  shows "reqCount (fst (fetch_step tr (s, t)))
         - int (length (filter answered (map snd (wire (fst (fetch_step tr (s, t))))))) = k"
  using assms
  by (cases "t_pc t")
     (auto simp: fetch_step_def own_store_fields answered_def Let_def
           split: http_result.splits option.splits list.splits sum.splits)

lemma fetch_step_claims:
  assumes "claims s = (if found s then 1 else 0)"
  shows "claims (fst (fetch_step tr (s, t))) = (if found (fst (fetch_step tr (s, t))) then 1 else 0)"
  using assms
  by (cases "t_pc t")
     (auto simp: fetch_step_def own_store_fields Let_def
           split: http_result.splits option.splits list.splits sum.splits)

lemma fetch_step_found:
  assumes "found s"
  shows "found (fst (fetch_step tr (s, t)))"
  using assms
  by (cases "t_pc t")
     (auto simp: fetch_step_def own_store_fields Let_def
           split: http_result.splits option.splits list.splits sum.splits)

lemma run_found:
  "found (fst c) \<Longrightarrow> found (fst (run tr sched c))"
  using fetch_step_found by (rule run_preserves)

lemma Search_claims:
  "claims (fst (main_Search tr prb sched deadline start end' lang))
   = (if found (fst (main_Search tr prb sched deadline start end' lang)) then 1 else 0)"
proof -
  let ?I = "\<lambda>s. claims s = (if found s then 1 else 0)"
  have "?I (fst (Search tr prb sched deadline (NewSearcher lang start lang end') start end' lang))"
  proof (rule Search_preserves)
    show "?I (fst (fetch_step tr (s, t)))" if "?I s" for s t
      using that by (rule fetch_step_claims)
    show "?I (fst (seed prb (NewSearcher lang start lang end') start end' lang))"
      by (simp add: seed_fields NewSearcher_def)
  qed
  then show ?thesis
    by (simp add: main_Search_def)
qed

lemma Search_found:
  "found s0 \<Longrightarrow> found (fst (Search tr prb sched deadline s0 start end' lang))"
proof (rule Search_preserves [where I = found])
  show "found (fst (fetch_step tr (s, t)))" if "found s" for s t
    using that by (rule fetch_step_found)
  show "found (fst (seed prb s0 start end' lang))" if "found s0"
    using that by (simp add: seed_fields)
qed

section \<open>One call among the others\<close>















section \<open>A call that fails, and the status of a response\<close>



























section \<open>The request counter\<close>

text \<open>
  Claim C5, as the code has it. After a search made with a new searcher, the request
  counter is the number of calls of \<open>fetch\<close> whose request was answered, that is, for which
  \<open>client.Do\<close> returned a response and no error, whatever the status of the response and
  whether or not its body decoded; a call whose request failed in the transport does not
  count. This holds for every transport, every prober, every schedule of every round and
  every deadline.
\<close>

theorem request_counter:
  "reqCount (fst (main_Search tr prb sched deadline start end' lang))
   = int (length (filter answered
       (map snd (wire (fst (main_Search tr prb sched deadline start end' lang))))))"
proof -
  let ?I = "\<lambda>s. reqCount s - int (length (filter answered (map snd (wire s)))) = 0"
  have "?I (fst (Search tr prb sched deadline (NewSearcher lang start lang end') start end' lang))"
  proof (rule Search_preserves)
    show "?I (fst (fetch_step tr (s, t)))" if "?I s" for s t
      using that by (rule fetch_step_counts)
    show "?I (fst (seed prb (NewSearcher lang start lang end') start end' lang))"
      by (simp add: seed_fields NewSearcher_def)
  qed
  then show ?thesis
    by (simp add: main_Search_def)
qed

theorem request_counter_witness:
  "reqCount (fst (main_Search tr_undecodable probe_en (\<lambda>r. []) 10 ''Tea'' ''Thames'' ''en'')) = 2"
proof -
  have "int (length (filter answered
       (map snd (wire (fst (main_Search tr_undecodable probe_en (\<lambda>r. []) 10
                              ''Tea'' ''Thames'' ''en'')))))) = 2"
    by code_simp
  then show ?thesis
    by (simp only: request_counter)
qed

text \<open>
  Claim C5, as it is worded, fails when a body does not decode: the counter is
  incremented before the decoding. With a transport whose bodies never decode, the search
  from \<open>Tea\<close> to \<open>Thames\<close> ends with the counter at 2 and no decoded response.
\<close>

theorem request_counter_counterexample:
  "reqCount (fst (main_Search tr_undecodable probe_en (\<lambda>r. []) 10 ''Tea'' ''Thames'' ''en'')) = 2
   \<and> filter decoded
        (map snd (wire (fst (main_Search tr_undecodable probe_en (\<lambda>r. []) 10
                               ''Tea'' ''Thames'' ''en''))))
      = []"
  by code_simp

section \<open>The meeting claim\<close>

text \<open>
  Claim C4, as the code has it. Along every schedule \<open>found\<close>, once true, stays true. In
  every search made with a new searcher, whatever the transport, the prober, the schedules
  and the deadline, the number of compare-and-swaps that succeeded is 1 if the search ends
  with \<open>found\<close> set and 0 otherwise. The call whose compare-and-swap succeeds sets \<open>found\<close>
  and goes on to store its parent under the key of the meeting node and to build the path;
  a call whose compare-and-swap fails leaves the shared state as it is and goes on to the
  insertion \<open>LoadOrStore\<close> of its own side, as a call that met no candidate does: when its
  own map has no entry under the key of the candidate, whether \<open>found\<close> is set or not, it
  stores its parent there and adds the candidate to its new nodes.
\<close>

theorem single_claim:
  "(found (fst c) \<longrightarrow> found (fst (run tr sched c)))
   \<and> (found s0 \<longrightarrow> found (fst (Search tr prb sched' deadline s0 start end' lang)))
   \<and> claims (fst (main_Search tr prb sched' deadline start end' lang))
     = (if found (fst (main_Search tr prb sched' deadline start end' lang)) then 1 else 0)
   \<and> (t_pc t = Claim child \<longrightarrow> \<not> found s \<longrightarrow>
        fetch_step tr (s, t)
        = (s\<lparr>found := True, claims := Suc (claims s)\<rparr>, t\<lparr>t_pc := StoreParent child\<rparr>))
   \<and> (t_pc t = StoreParent child \<longrightarrow>
        fetch_step tr (s, t)
        = (own_store (t_dir t) (Key child) (t_parent t) s, t\<lparr>t_pc := Build child\<rparr>))
   \<and> (t_pc t = Claim child \<longrightarrow> found s \<longrightarrow>
        fetch_step tr (s, t) = (s, t\<lparr>t_pc := Insert child\<rparr>))
   \<and> (t_pc t' = Insert child' \<longrightarrow> own (t_dir t') s' (Key child') = None \<longrightarrow>
        fetch_step tr (s', t')
        = (own_store (t_dir t') (Key child') (t_parent t') s',
           t'\<lparr>t_pc := Check, t_newNodes := t_newNodes t' @ [child']\<rparr>))"
proof (intro conjI impI)
  show "found (fst (run tr sched c))" if "found (fst c)"
    using that by (rule run_found)
  show "found (fst (Search tr prb sched' deadline s0 start end' lang))" if "found s0"
    using that by (rule Search_found)
  show "claims (fst (main_Search tr prb sched' deadline start end' lang))
        = (if found (fst (main_Search tr prb sched' deadline start end' lang)) then 1 else 0)"
    by (rule Search_claims)
  show "fetch_step tr (s, t)
        = (s\<lparr>found := True, claims := Suc (claims s)\<rparr>, t\<lparr>t_pc := StoreParent child\<rparr>)"
    if "t_pc t = Claim child" and "\<not> found s"
    using that by (simp add: fetch_step_def)
  show "fetch_step tr (s, t)
        = (own_store (t_dir t) (Key child) (t_parent t) s, t\<lparr>t_pc := Build child\<rparr>)"
    if "t_pc t = StoreParent child"
    using that by (simp add: fetch_step_def)
  show "fetch_step tr (s, t) = (s, t\<lparr>t_pc := Insert child\<rparr>)"
    if "t_pc t = Claim child" and "found s"
    using that by (simp add: fetch_step_def)
  show "fetch_step tr (s', t')
        = (own_store (t_dir t') (Key child') (t_parent t') s',
           t'\<lparr>t_pc := Check, t_newNodes := t_newNodes t' @ [child']\<rparr>)"
    if "t_pc t' = Insert child'" and "own (t_dir t') s' (Key child') = None"
    using that by (simp add: fetch_step_def)
qed

theorem single_claim_witness:
  "found (fst (main_Search tr_direct probe_en (\<lambda>r. if r = 0 then race else []) 10
                 ''Tea'' ''Cup'' ''en''))
   \<and> claims (fst (main_Search tr_direct probe_en (\<lambda>r. if r = 0 then race else []) 10
                    ''Tea'' ''Cup'' ''en'')) = 1
   \<and> found (fst cup_race)
   \<and> t_pc (snd cup_race ! 0) = Insert \<lparr>Title = ''Cup'', Lang = ''en'', Priority = 0\<rparr>
   \<and> own (t_dir (snd cup_race ! 0)) (fst cup_race)
        (Key \<lparr>Title = ''Cup'', Lang = ''en'', Priority = 0\<rparr>) = None
   \<and> fetch_step tr_direct (fst cup_race, snd cup_race ! 0)
     = (own_store (t_dir (snd cup_race ! 0)) (Key \<lparr>Title = ''Cup'', Lang = ''en'', Priority = 0\<rparr>)
          (t_parent (snd cup_race ! 0)) (fst cup_race),
        (snd cup_race ! 0)
          \<lparr>t_pc := Check,
           t_newNodes := t_newNodes (snd cup_race ! 0)
                         @ [\<lparr>Title = ''Cup'', Lang = ''en'', Priority = 0\<rparr>]\<rparr>)"
proof -
  note claim = single_claim [where tr = tr_direct and prb = probe_en
      and sched' = "\<lambda>r. if r = 0 then race else []" and deadline = 10
      and start = "''Tea''" and end' = "''Cup''" and lang = "''en''"
      and s' = "fst cup_race" and t' = "snd cup_race ! 0"
      and child' = "\<lparr>Title = ''Cup'', Lang = ''en'', Priority = 0\<rparr>"]
  have f: "found (fst (main_Search tr_direct probe_en (\<lambda>r. if r = 0 then race else []) 10
                         ''Tea'' ''Cup'' ''en''))"
    by code_simp
  with claim
  have one: "claims (fst (main_Search tr_direct probe_en (\<lambda>r. if r = 0 then race else []) 10
                            ''Tea'' ''Cup'' ''en'')) = 1"
    by simp
  have set: "found (fst cup_race)"
    by code_simp
  have at: "t_pc (snd cup_race ! 0) = Insert \<lparr>Title = ''Cup'', Lang = ''en'', Priority = 0\<rparr>"
    by code_simp
  have absent: "own (t_dir (snd cup_race ! 0)) (fst cup_race)
                  (Key \<lparr>Title = ''Cup'', Lang = ''en'', Priority = 0\<rparr>) = None"
    by code_simp
  from claim at absent
  have "fetch_step tr_direct (fst cup_race, snd cup_race ! 0)
     = (own_store (t_dir (snd cup_race ! 0)) (Key \<lparr>Title = ''Cup'', Lang = ''en'', Priority = 0\<rparr>)
          (t_parent (snd cup_race ! 0)) (fst cup_race),
        (snd cup_race ! 0)
          \<lparr>t_pc := Check,
           t_newNodes := t_newNodes (snd cup_race ! 0)
                         @ [\<lparr>Title = ''Cup'', Lang = ''en'', Priority = 0\<rparr>]\<rparr>)"
    by blast
  with f one set at absent show ?thesis
    by blast
qed

text \<open>
  Claim C4, as it is worded, fails for the call that loses the compare-and-swap: it does
  record something. \<open>Tea\<close> links to \<open>Cup\<close>; the forward call finds \<open>Cup\<close> in the backward
  map, the backward call finds \<open>Tea\<close> in the forward map, the backward call wins. The
  forward call then stands before its \<open>LoadOrStore\<close> with \<open>found\<close> set, the key of \<open>Cup\<close>
  absent from the forward map; its next step stores the parent \<open>Tea\<close> under that key and
  adds \<open>Cup\<close> to its new nodes.
\<close>

theorem loser_records_counterexample:
  "found (fst (run tr_direct race
       (first_round probe_en (NewSearcher ''en'' ''Tea'' ''en'' ''Cup'') ''Tea'' ''Cup'' ''en'')))
   \<and> map t_pc (snd (run tr_direct race
       (first_round probe_en (NewSearcher ''en'' ''Tea'' ''en'' ''Cup'') ''Tea'' ''Cup'' ''en'')))
     = [Insert \<lparr>Title = ''Cup'', Lang = ''en'', Priority = 0\<rparr>,
        StoreParent \<lparr>Title = ''Tea'', Lang = ''en'', Priority = 0\<rparr>]
   \<and> visitedF (fst (run tr_direct race
       (first_round probe_en (NewSearcher ''en'' ''Tea'' ''en'' ''Cup'') ''Tea'' ''Cup'' ''en'')))
       ''en:cup'' = None
   \<and> visitedF (fst (step tr_direct 0 (run tr_direct race
       (first_round probe_en (NewSearcher ''en'' ''Tea'' ''en'' ''Cup'') ''Tea'' ''Cup'' ''en''))))
       ''en:cup'' = Some (Some \<lparr>Title = ''Tea'', Lang = ''en'', Priority = 0\<rparr>)
   \<and> t_newNodes (snd (step tr_direct 0 (run tr_direct race
       (first_round probe_en (NewSearcher ''en'' ''Tea'' ''en'' ''Cup'') ''Tea'' ''Cup'' ''en''))) ! 0)
     = [\<lparr>Title = ''Cup'', Lang = ''en'', Priority = 0\<rparr>]"
  by code_simp

section \<open>A search from a node to itself\<close>

text \<open>
  Claim C2, as the code has it. When the start and the end resolve to the same language
  and the same title, compared as strings, \<open>Search\<close> returns the path of the start node
  alone, calls \<open>fetch\<close> for nothing (the transport sees no request) and leaves the request
  counter as it was, which is 0 for a new searcher.
\<close>

theorem Search_same_node:
  assumes "resolve prb lang start = resolve prb lang end'"
  shows "snd (Search tr prb sched deadline s start end' lang)
           = Returned [\<lparr>Title = snd (resolve prb lang start), Lang = fst (resolve prb lang start),
                        Priority = 0\<rparr>]
         \<and> reqCount (fst (Search tr prb sched deadline s start end' lang)) = reqCount s
         \<and> wire (fst (Search tr prb sched deadline s start end' lang)) = wire s"
proof -
  obtain l t where r: "resolve prb lang start = (l, t)"
    by (cases "resolve prb lang start")
  with assms have r': "resolve prb lang end' = (l, t)"
    by simp
  show ?thesis
    by (simp add: Search_def seed_def r r' Let_def)
qed

theorem Search_same_node_witness:
  "snd (main_Search tr_direct probe_en (\<lambda>r. []) 10 ''Tea'' ''Tea'' ''en'')
     = Returned [\<lparr>Title = ''Tea'', Lang = ''en'', Priority = 0\<rparr>]
   \<and> reqCount (fst (main_Search tr_direct probe_en (\<lambda>r. []) 10 ''Tea'' ''Tea'' ''en'')) = 0
   \<and> wire (fst (main_Search tr_direct probe_en (\<lambda>r. []) 10 ''Tea'' ''Tea'' ''en'')) = []"
proof -
  have r: "resolve probe_en ''en'' ''Tea'' = (''en'', ''Tea'')"
    by code_simp
  have "resolve probe_en ''en'' ''Tea'' = resolve probe_en ''en'' ''Tea''"
    by simp
  from Search_same_node [OF this, of tr_direct "\<lambda>r. []" 10 "NewSearcher ''en'' ''Tea'' ''en'' ''Tea''"]
  show ?thesis
    by (simp add: main_Search_def r NewSearcher_def)
qed

text \<open>
  Claim C2, as it is worded, fails for two nodes that have the same key and different
  titles, as the articles \<open>Red meat\<close> and \<open>Red Meat\<close> of the English Wikipedia: the test of
  \<open>Search\<close> compares the titles, not the keys. The search goes on, sends four requests
  and, in a wiki where \<open>Red meat\<close> only links to \<open>Beef\<close>, returns the empty path with the
  counter at 2.
\<close>

theorem same_key_counterexample:
  "Key (fst (snd (seed probe_en (NewSearcher ''en'' ''Red meat'' ''en'' ''Red Meat'')
                    ''Red meat'' ''Red Meat'' ''en'')))
   = Key (snd (snd (seed probe_en (NewSearcher ''en'' ''Red meat'' ''en'' ''Red Meat'')
                      ''Red meat'' ''Red Meat'' ''en'')))
   \<and> snd (main_Search tr_beef probe_en (\<lambda>r. []) 10 ''Red meat'' ''Red Meat'' ''en'') = Returned []
   \<and> reqCount (fst (main_Search tr_beef probe_en (\<lambda>r. []) 10 ''Red meat'' ''Red Meat'' ''en'')) = 2
   \<and> length (wire (fst (main_Search tr_beef probe_en (\<lambda>r. []) 10 ''Red meat'' ''Red Meat'' ''en'')))
     = 4"
  by code_simp

section \<open>A call whose request fails\<close>




section \<open>The parent graph and the returned path\<close>

lemma walkF_self_loop:
  assumes "vis (Key cur) = Some (Some p)" and "Key p = Key cur"
  shows "walkF vis cur fwd = None"
proof (rule ccontr)
  assume "walkF vis cur fwd \<noteq> None"
  then obtain y where y: "walkF vis cur fwd = Some y"
    by auto
  have "\<not> (\<exists>q. vis (Key cur) = Some (Some q) \<and> Key q = Key cur)"
  proof (rule walkF.raw_induct
      [where P = "\<lambda>vis cur fwd y. \<not> (\<exists>q. vis (Key cur) = Some (Some q) \<and> Key q = Key cur)",
        OF _ y])
    fix walk vis cur fwd y
    assume IH: "\<And>vis cur fwd y. walk vis cur fwd = Some y
                 \<Longrightarrow> \<not> (\<exists>q. vis (Key cur) = Some (Some q) \<and> Key q = Key cur)"
      and eq: "(case vis (Key cur) of
                  None \<Rightarrow> Some (cur # fwd)
                | Some None \<Rightarrow> Some (cur # fwd)
                | Some (Some p) \<Rightarrow> walk vis p (cur # fwd)) = Some (y :: WikiNode list)"
    show "\<not> (\<exists>q. vis (Key cur) = Some (Some q) \<and> Key q = Key cur)"
    proof
      assume "\<exists>q. vis (Key cur) = Some (Some q) \<and> Key q = Key cur"
      then obtain q where q: "vis (Key cur) = Some (Some q)" "Key q = Key cur"
        by blast
      with eq have "walk vis q (cur # fwd) = Some y"
        by simp
      then have "\<not> (\<exists>q'. vis (Key q) = Some (Some q') \<and> Key q' = Key q)"
        by (rule IH)
      with q show False
        by auto
    qed
  qed
  with assms show False
    by blast
qed

lemma buildPath_walks:
  assumes "buildPath s meet = Some (Inr path)"
  shows "\<exists>fwd bwd. walkF (visitedF s) meet [] = Some fwd \<and> path = fwd @ bwd
           \<and> (case visitedB s (Key meet) of
                 Some (Some p) \<Rightarrow> walkB (visitedB s) p [] = Some bwd
               | _ \<Rightarrow> bwd = [])"
  using assms by (auto simp: buildPath_def split: option.splits)

lemma Insert_keeps_parent:
  assumes "t_pc t = Insert child" and "own (t_dir t) s (Key child) \<noteq> None"
  shows "fetch_step tr (s, t) = (s, t\<lparr>t_pc := Check\<rparr>)"
  using assms by (auto simp: fetch_step_def)

text \<open>
  Claim C1 against the code. \<open>Tea\<close> links to the redirect \<open>UK\<close>; the request for \<open>UK\<close> is
  answered with the page \<open>United Kingdom\<close>, whose key no visited map holds, and that page is
  the parent of \<open>London\<close>, where the two sides meet. The forward walk of \<open>buildPath\<close> ends
  at \<open>United Kingdom\<close>, and the path that \<open>Search\<close> returns from \<open>Tea\<close> to \<open>Thames\<close> does not
  begin with the start node \<open>Tea\<close>.
\<close>

theorem redirect_path:
  "snd (main_Search tr_redirect probe_en (\<lambda>r. []) 10 ''Tea'' ''Thames'' ''en'')
   = Returned [\<lparr>Title = ''United Kingdom'', Lang = ''en'', Priority = 0\<rparr>,
               \<lparr>Title = ''London'', Lang = ''en'', Priority = 60\<rparr>,
               \<lparr>Title = ''Thames'', Lang = ''en'', Priority = 0\<rparr>]
   \<and> found (fst (main_Search tr_redirect probe_en (\<lambda>r. []) 10 ''Tea'' ''Thames'' ''en''))
   \<and> fst (snd (seed probe_en (NewSearcher ''en'' ''Tea'' ''en'' ''Thames'') ''Tea'' ''Thames'' ''en''))
     = \<lparr>Title = ''Tea'', Lang = ''en'', Priority = 0\<rparr>"
  by code_simp

text \<open>
  Claim C3 against the code. The start \<open>Red meat\<close> and the end \<open>Red Meat\<close> have the same
  key, which is a root of both visited maps. The forward call, on the page \<open>Red meat\<close>,
  comes to the link \<open>Red Meat\<close>, finds its key in the backward map and wins the
  compare-and-swap. After these five steps \<open>found\<close> is set and the forward map still holds
  the nil parent of the root under that key; the sixth step, \<open>own.Store(key, &parent)\<close>,
  replaces it by the parent \<open>Red meat\<close>.
\<close>

theorem claim_store_overwrites:
  "found (fst (run tr_red_meat [0, 0, 0, 0, 0]
      (first_round probe_en (NewSearcher ''en'' ''Red meat'' ''en'' ''Red Meat'')
         ''Red meat'' ''Red Meat'' ''en'')))
   \<and> map t_pc (snd (run tr_red_meat [0, 0, 0, 0, 0]
      (first_round probe_en (NewSearcher ''en'' ''Red meat'' ''en'' ''Red Meat'')
         ''Red meat'' ''Red Meat'' ''en'')))
     = [StoreParent \<lparr>Title = ''Red Meat'', Lang = ''en'', Priority = -60\<rparr>, Entry]
   \<and> visitedF (fst (run tr_red_meat [0, 0, 0, 0, 0]
      (first_round probe_en (NewSearcher ''en'' ''Red meat'' ''en'' ''Red Meat'')
         ''Red meat'' ''Red Meat'' ''en'')))
      ''en:red meat'' = Some None
   \<and> visitedF (fst (run tr_red_meat [0, 0, 0, 0, 0, 0]
      (first_round probe_en (NewSearcher ''en'' ''Red meat'' ''en'' ''Red Meat'')
         ''Red meat'' ''Red Meat'' ''en'')))
      ''en:red meat'' = Some (Some \<lparr>Title = ''Red meat'', Lang = ''en'', Priority = 0\<rparr>)"
  by code_simp

text \<open>
  The same store replaces the parent of an ordinary node when two calls have passed their
  check of the other map for one child before either inserts it. In the second round of
  the search from \<open>Tea\<close> to \<open>Thames\<close>, under the schedule \<open>late\<close>, \<open>found\<close> is set and the
  forward map holds the parent \<open>Milk\<close> for \<open>Water\<close>; the next step of the forward call
  replaces it by \<open>Sugar\<close>.
\<close>

lemma claim_store_overwrites_parent:
  "found (fst (run tr_water late
      (round_conf
         (fst (join tr_water [] (first_round probe_en (NewSearcher ''en'' ''Tea'' ''en'' ''Thames'')
                  ''Tea'' ''Thames'' ''en'')))
         (returned ''F'' (snd (join tr_water [] (first_round probe_en
                  (NewSearcher ''en'' ''Tea'' ''en'' ''Thames'') ''Tea'' ''Thames'' ''en''))))
         (returned ''B'' (snd (join tr_water [] (first_round probe_en
                  (NewSearcher ''en'' ''Tea'' ''en'' ''Thames'') ''Tea'' ''Thames'' ''en'')))))))
   \<and> visitedF (fst (run tr_water late
      (round_conf
         (fst (join tr_water [] (first_round probe_en (NewSearcher ''en'' ''Tea'' ''en'' ''Thames'')
                  ''Tea'' ''Thames'' ''en'')))
         (returned ''F'' (snd (join tr_water [] (first_round probe_en
                  (NewSearcher ''en'' ''Tea'' ''en'' ''Thames'') ''Tea'' ''Thames'' ''en''))))
         (returned ''B'' (snd (join tr_water [] (first_round probe_en
                  (NewSearcher ''en'' ''Tea'' ''en'' ''Thames'') ''Tea'' ''Thames'' ''en'')))))))
      ''en:water'' = Some (Some \<lparr>Title = ''Milk'', Lang = ''en'', Priority = 0\<rparr>)
   \<and> visitedF (fst (run tr_water (late @ [0])
      (round_conf
         (fst (join tr_water [] (first_round probe_en (NewSearcher ''en'' ''Tea'' ''en'' ''Thames'')
                  ''Tea'' ''Thames'' ''en'')))
         (returned ''F'' (snd (join tr_water [] (first_round probe_en
                  (NewSearcher ''en'' ''Tea'' ''en'' ''Thames'') ''Tea'' ''Thames'' ''en''))))
         (returned ''B'' (snd (join tr_water [] (first_round probe_en
                  (NewSearcher ''en'' ''Tea'' ''en'' ''Thames'') ''Tea'' ''Thames'' ''en'')))))))
      ''en:water'' = Some (Some \<lparr>Title = ''Sugar'', Lang = ''en'', Priority = 0\<rparr>)"
  by code_simp

text \<open>
  Claim C9 against the code. In the search from \<open>Red meat\<close> to \<open>Red Meat\<close> the store of the
  meeting claim makes the key of the two nodes its own parent: the forward map takes the
  key of \<open>Red meat\<close> to the node \<open>Red meat\<close>. The forward walk of \<open>buildPath\<close> from the
  meeting node never ends, the call never returns, and neither does \<open>Search\<close>.
\<close>

theorem parent_cycle_never_returns:
  "snd (main_Search tr_red_meat probe_en (\<lambda>r. []) 10 ''Red meat'' ''Red Meat'' ''en'') = Never
   \<and> visitedF (fst (main_Search tr_red_meat probe_en (\<lambda>r. []) 10 ''Red meat'' ''Red Meat'' ''en''))
       (Key \<lparr>Title = ''Red meat'', Lang = ''en'', Priority = 0\<rparr>)
     = Some (Some \<lparr>Title = ''Red meat'', Lang = ''en'', Priority = 0\<rparr>)"
proof -
  have k1: "Key \<lparr>Title = ''Red meat'', Lang = ''en'', Priority = p\<rparr> = ''en:red meat''" for p
    by code_simp
  have k2: "Key \<lparr>Title = ''Red Meat'', Lang = ''en'', Priority = p\<rparr> = ''en:red meat''" for p
    by code_simp
  have r1: "resolve probe_en ''en'' ''Red meat'' = (''en'', ''Red meat'')"
    by code_simp
  have r2: "resolve probe_en ''en'' ''Red Meat'' = (''en'', ''Red Meat'')"
    by code_simp
  show ?thesis
    by (simp add: main_Search_def Search_def seed_def first_round_def r1 r2 k1 k2 join_def run_def
        finish_def fetch_step_def new_task_def terminal_def tr_red_meat_def children_def
        other_def own_def own_store_def buildPath_def walkF_self_loop NewSearcher_def Let_def)
qed

text \<open>
  \<open>buildPath\<close> does not return either when the meeting node is the end node itself: the
  backward map holds the nil parent of the root under its key. \<open>Tea\<close> links to \<open>Cup\<close>, the
  forward call runs first and meets \<open>Cup\<close> in the backward map.
\<close>

lemma direct_link_panics:
  "snd (main_Search tr_direct probe_en (\<lambda>r. []) 10 ''Tea'' ''Cup'' ''en'') = Crashed"
  by code_simp

end
